theory Spec2Isabelle
  imports Main
begin

section \<open>The configuration wizard views of django\_models\_from\_csv\<close>

text \<open>
  A shallow embedding of \<^verbatim>\<open>django_models_from_csv/views/configuration.py\<close>:
  the four request handlers \<^verbatim>\<open>begin\<close>, \<^verbatim>\<open>refine_and_import\<close>,
  \<^verbatim>\<open>refine_and_import_by_name\<close> and \<^verbatim>\<open>import_data\<close>.

  The handlers are glue over collaborators that live in other modules (the
  dynamic-model factories, the fetchers, the refine form, the importer, the
  settings accessor). Those modules are taken as parameters, collected in the
  record \<open>env\<close>; the handlers themselves are translated line by line. A handler
  maps a request and the persistent store to an outcome (the response it
  returns or the exception it raises), the store it leaves behind, and the
  list of collaborator calls it made, in order.
\<close>

subsection \<open>Data model\<close>

type_synonym column = "string \<times> string"
type_synonym csv = string
type_synonym row = "string list"
type_synonym import_error = string
type_synonym form_error = string

text \<open>\<^verbatim>\<open>models.DynamicModel\<close>: the schema descriptor. Nullable fields are options.\<close>

record dynmodel =
  dm_id :: nat
  dm_name :: string
  columns :: "column list"
  csv_url :: "string option"
  csv_google_refresh_token :: "string option"
  sd_api_key :: "string option"
  sd_project_id :: "int option"
  sd_form_id :: "int option"

text \<open>
  The persistent store: the table of schema descriptors
  (\<^verbatim>\<open>DynamicModel.objects\<close>) and, for each descriptor id, the rows of the
  backing table of the model that \<^verbatim>\<open>dynmodel.get_model()\<close> returns.
\<close>

record store =
  dynmodels :: "dynmodel list"
  tables :: "nat \<Rightarrow> row list"

text \<open>Python exceptions. \<open>UniqueColumnError\<close> carries \<^verbatim>\<open>str(e)\<close>.\<close>

datatype exn =
    Http404
  | UniqueColumnError string
  | NotImplementedError string
  | UnboundLocalError string
  | TypeError
  | ValueError
  | KeyError string
  | DoesNotExist
  | OtherError string

text \<open>
  \<^verbatim>\<open>request\<close>: the method, the two parameter dictionaries, and whether
  \<^verbatim>\<open>request.user.is_authenticated\<close> holds (read by \<^verbatim>\<open>login_required\<close>).
\<close>

record request =
  http_method :: string
  GET :: "string \<rightharpoonup> string"
  POST :: "string \<rightharpoonup> string"
  user_is_authenticated :: bool

text \<open>
  A \<^verbatim>\<open>SchemaRefineForm\<close> is bound either to \<^verbatim>\<open>request.POST\<close> or to the
  dictionary \<^verbatim>\<open>{"columns": dynmodel.columns}\<close>.
\<close>

datatype form_data = PostData "string \<rightharpoonup> string" | ColumnsData "column list"

datatype ctx_value =
    CtxForm form_data
  | CtxDynmodel dynmodel
  | CtxErrors "import_error list"
  | CtxStr string
  | CtxCount nat

text \<open>
  What a view returns: \<^verbatim>\<open>render(request, template, context)\<close>,
  \<^verbatim>\<open>redirect(to, *args)\<close>, the redirect to the login page issued by
  \<^verbatim>\<open>login_required\<close>, or \<^verbatim>\<open>None\<close> when the body falls off its end.
\<close>

datatype response =
    Render string "(string \<times> ctx_value) list"
  | Redirect string "nat list"
  | LoginRedirect
  | ReturnsNone

text \<open>The collaborator calls a handler makes, with their arguments.\<close>

datatype call =
    CallFromPrivateSheet "string option" string string
  | CallFromCsvUrl "string option" string "string option"
  | CallFromScreendoor "string option" string int "int option"
  | CallSave dynmodel
  | CallGetAccessData string
  | CallGetCsvFromUrl string string
  | CallFetchCsv string
  | CallBuildCsv string "int option" "int option"
  | CallImportRecords csv nat
  | CallLoggerError "import_error list"
  | CallImportDataPost nat

type_synonym result = "(exn + response) \<times> store \<times> call list"

subsection \<open>Collaborators\<close>

text \<open>
  The modules the views import. Each field is the function of the same name:
  \<^item> \<open>from_private_sheet\<close>, \<open>from_csv_url\<close>, \<open>from_screendoor\<close>
    (\<^verbatim>\<open>utils.dynmodel\<close>): the factories; they may raise and may write the store;
  \<^item> \<open>int_of_str\<close>: Python's builtin \<^verbatim>\<open>int\<close> on a \<^verbatim>\<open>str\<close>, \<open>None\<close> where it
    raises \<^verbatim>\<open>ValueError\<close>;
  \<^item> \<open>form_errors\<close>, \<open>form_cleaned_columns\<close> (\<^verbatim>\<open>forms.SchemaRefineForm\<close>):
    \<^verbatim>\<open>form.errors\<close> and \<^verbatim>\<open>form.cleaned_data["columns"]\<close>;
  \<^item> \<open>get_setting\<close> (\<^verbatim>\<open>utils.common\<close>);
  \<^item> \<open>get_access_data\<close>, \<open>get_csv_from_url\<close> (\<^verbatim>\<open>utils.google_sheets\<close>),
    \<open>fetch_csv\<close> (\<^verbatim>\<open>utils.csv\<close>), \<open>build_csv\<close> (\<^verbatim>\<open>utils.screendoor\<close>): the
    fetchers; they may raise;
  \<^item> \<open>import_records\<close> (\<^verbatim>\<open>utils.importing\<close>): the importer. Its footprint
    is taken from the spec, which says it "writes rows into the backing table
    and collects per-row errors": it maps the rows of the backing table of
    the model it is handed to the new rows, and returns the list of row
    errors or raises;
  \<^item> \<open>alter_table\<close>: what \<^verbatim>\<open>DynamicModel.save()\<close> does to the backing table;
  \<^item> \<open>dynmodel_str\<close>: \<^verbatim>\<open>str(dynmodel)\<close>;
  \<^item> \<open>import_data_post\<close>: the part of \<^verbatim>\<open>import_data\<close>'s POST branch that
    follows \<^verbatim>\<open>Model = dynmodel.get_model()\<close>, where the source excerpt ends.
\<close>

record env =
  from_private_sheet ::
    "string option \<Rightarrow> string \<Rightarrow> string \<Rightarrow> store \<Rightarrow> (exn + dynmodel) \<times> store"
  from_csv_url ::
    "string option \<Rightarrow> string \<Rightarrow> string option \<Rightarrow> store \<Rightarrow> (exn + dynmodel) \<times> store"
  from_screendoor ::
    "string option \<Rightarrow> string \<Rightarrow> int \<Rightarrow> int option \<Rightarrow> store \<Rightarrow> (exn + dynmodel) \<times> store"
  int_of_str :: "string \<Rightarrow> int option"
  form_errors :: "form_data \<Rightarrow> form_error list"
  form_cleaned_columns :: "form_data \<Rightarrow> column list"
  get_setting :: "string \<Rightarrow> string option"
  get_access_data :: "string option \<Rightarrow> string option \<Rightarrow> string \<Rightarrow> exn + (string \<rightharpoonup> string)"
  get_csv_from_url :: "string \<Rightarrow> string \<Rightarrow> exn + csv"
  fetch_csv :: "string \<Rightarrow> exn + csv"
  build_csv :: "string \<Rightarrow> int option \<Rightarrow> int option \<Rightarrow> exn + csv"
  import_records :: "csv \<Rightarrow> dynmodel \<Rightarrow> row list \<Rightarrow> (exn + import_error list) \<times> row list"
  alter_table :: "dynmodel \<Rightarrow> row list \<Rightarrow> row list"
  dynmodel_str :: "dynmodel \<Rightarrow> string"
  import_data_post :: "request \<Rightarrow> dynmodel \<Rightarrow> store \<Rightarrow> (exn + response) \<times> store"

subsection \<open>Python and Django primitives\<close>

text \<open>Truth value of a value that is \<^verbatim>\<open>None\<close> or a \<^verbatim>\<open>str\<close>: false for both
  \<^verbatim>\<open>None\<close> and the empty string.\<close>

definition truthy :: "string option \<Rightarrow> bool" where
  "truthy v = (case v of None \<Rightarrow> False | Some s \<Rightarrow> s \<noteq> [])"

text \<open>The string held by a value that has been tested truthy.\<close>

definition str_val :: "string option \<Rightarrow> string" where
  "str_val v = (case v of None \<Rightarrow> [] | Some s \<Rightarrow> s)"

text \<open>\<^verbatim>\<open>int(x)\<close> for \<^verbatim>\<open>x\<close> taken from \<^verbatim>\<open>request.POST.get\<close>: \<^verbatim>\<open>TypeError\<close> on
  \<^verbatim>\<open>None\<close>, \<^verbatim>\<open>ValueError\<close> on a string that is no integer literal.\<close>

definition py_int :: "env \<Rightarrow> string option \<Rightarrow> exn + int" where
  "py_int env v =
     (case v of
        None \<Rightarrow> Inl TypeError
      | Some s \<Rightarrow> (case int_of_str env s of None \<Rightarrow> Inl ValueError | Some i \<Rightarrow> Inr i))"

text \<open>\<^verbatim>\<open>get_object_or_404(models.DynamicModel, id=id)\<close>.\<close>

definition get_object_or_404 :: "store \<Rightarrow> nat \<Rightarrow> exn + dynmodel" where
  "get_object_or_404 st ident =
     (case find (\<lambda>d. dm_id d = ident) (dynmodels st) of
        None \<Rightarrow> Inl Http404
      | Some d \<Rightarrow> Inr d)"

text \<open>Writing a descriptor row: update the row with the same id, insert otherwise.\<close>

fun upsert :: "dynmodel \<Rightarrow> dynmodel list \<Rightarrow> dynmodel list" where
  "upsert d [] = [d]"
| "upsert d (x # xs) = (if dm_id x = dm_id d then d # xs else x # upsert d xs)"

text \<open>
  Modelled from the spec: \<^verbatim>\<open>DynamicModel.save()\<close> is defined in
  \<^verbatim>\<open>models.py\<close>, which is not among the sources. The spec: "overwrite the schema's
  column specification and persist it"; the backing table is "created/altered
  when \<^verbatim>\<open>DynamicModel.save()\<close> is called with a new schema".
\<close>

definition save :: "env \<Rightarrow> dynmodel \<Rightarrow> store \<Rightarrow> store" where
  "save env d st =
     st\<lparr>dynmodels := upsert d (dynmodels st),
        tables := (tables st)(dm_id d := alter_table env d (tables st (dm_id d)))\<rparr>"

text \<open>\<^verbatim>\<open>dynmodel.refresh_from_db()\<close>: reread the row with the object's id.\<close>

definition refresh_from_db :: "store \<Rightarrow> dynmodel \<Rightarrow> exn + dynmodel" where
  "refresh_from_db st d =
     (case find (\<lambda>x. dm_id x = dm_id d) (dynmodels st) of
        None \<Rightarrow> Inl DoesNotExist
      | Some x \<Rightarrow> Inr x)"

text \<open>\<^verbatim>\<open>@login_required\<close>: run the view for an authenticated user, redirect to
  the login page otherwise.\<close>

definition login_required :: "(request \<Rightarrow> store \<Rightarrow> result) \<Rightarrow> request \<Rightarrow> store \<Rightarrow> result" where
  "login_required view_func request st =
     (if user_is_authenticated request then view_func request st
      else (Inr LoginRedirect, st, []))"

subsection \<open>\<^verbatim>\<open>begin\<close>\<close>

text \<open>Lines 33 to 41, the GET branch.\<close>

definition begin_get :: "request \<Rightarrow> store \<Rightarrow> result" where
  "begin_get request st =
     (let addnew = GET request ''addnew'';
          models_count = length (dynmodels st)
      in if truthy addnew then (Inr (Render ''begin.html'' []), st, [])
         else if models_count \<noteq> 0 then (Inr (Redirect ''/admin/'' []), st, [])
         else (Inr (Render ''begin.html'' []), st, []))"

text \<open>Line 69: \<^verbatim>\<open>int(sd_form_id) if sd_form_id else None\<close>.\<close>

definition form_id_arg :: "env \<Rightarrow> string option \<Rightarrow> exn + int option" where
  "form_id_arg env v =
     (if truthy v then map_sum (\<lambda>e. e) Some (py_int env v) else Inr None)"

text \<open>
  Lines 52 to 70, the body of the \<^verbatim>\<open>try\<close>. Its value is the exception it
  raises, or the binding of the local \<^verbatim>\<open>dynmodel\<close> when it ends: \<open>None\<close> when
  no branch ran, so that the variable is unbound.
\<close>

definition begin_try :: "env \<Rightarrow> request \<Rightarrow> store \<Rightarrow> (exn + dynmodel option) \<times> store \<times> call list" where
  "begin_try env request st =
     (let csv_url = POST request ''csv_url'';
          csv_google_sheets_auth_code = POST request ''csv_google_sheets_auth_code'';
          sd_api_key = POST request ''sd_api_key'';
          sd_project_id = POST request ''sd_project_id'';
          sd_form_id = POST request ''sd_form_id''
      in if truthy csv_url \<and> truthy csv_google_sheets_auth_code then
           (let nm = POST request ''csv_name'';
                (r, st') = from_private_sheet env nm (str_val csv_url)
                             (str_val csv_google_sheets_auth_code) st
            in (map_sum (\<lambda>e. e) Some r, st',
                [CallFromPrivateSheet nm (str_val csv_url) (str_val csv_google_sheets_auth_code)]))
         else if truthy csv_url then
           (let nm = POST request ''csv_name'';
                (r, st') = from_csv_url env nm (str_val csv_url) csv_google_sheets_auth_code st
            in (map_sum (\<lambda>e. e) Some r, st',
                [CallFromCsvUrl nm (str_val csv_url) csv_google_sheets_auth_code]))
         else if truthy sd_api_key then
           (let nm = POST request ''sd_name''
            in case py_int env sd_project_id of
                 Inl e \<Rightarrow> (Inl e, st, [])
               | Inr project_id \<Rightarrow>
                   (case form_id_arg env sd_form_id of
                      Inl e \<Rightarrow> (Inl e, st, [])
                    | Inr form_id \<Rightarrow>
                        (let (r, st') = from_screendoor env nm (str_val sd_api_key)
                                          project_id form_id st
                         in (map_sum (\<lambda>e. e) Some r, st',
                             [CallFromScreendoor nm (str_val sd_api_key) project_id form_id]))))
         else (Inr None, st, []))"

text \<open>Lines 42 to 75, the POST branch: the \<^verbatim>\<open>try\<close>, its handler for
  \<^verbatim>\<open>UniqueColumnError\<close>, and the final redirect, which reads \<^verbatim>\<open>dynmodel\<close>.\<close>

definition begin_post :: "env \<Rightarrow> request \<Rightarrow> store \<Rightarrow> result" where
  "begin_post env request st =
     (case begin_try env request st of
        (Inl (UniqueColumnError msg), st', cs) \<Rightarrow>
          (Inr (Render ''begin.html'' [(''errors'', CtxStr msg)]), st', cs)
      | (Inl e, st', cs) \<Rightarrow> (Inl e, st', cs)
      | (Inr None, st', cs) \<Rightarrow> (Inl (UnboundLocalError ''dynmodel''), st', cs)
      | (Inr (Some d), st', cs) \<Rightarrow>
          (Inr (Redirect ''csv_models:refine-and-import'' [dm_id d]), st', cs))"

definition begin_body :: "env \<Rightarrow> request \<Rightarrow> store \<Rightarrow> result" where
  "begin_body env request st =
     (if http_method request = ''GET'' then begin_get request st
      else if http_method request = ''POST'' then begin_post env request st
      else (Inr ReturnsNone, st, []))"

definition begin_view :: "env \<Rightarrow> request \<Rightarrow> store \<Rightarrow> result" where
  "begin_view env = login_required (begin_body env)"

subsection \<open>\<^verbatim>\<open>refine_and_import\<close>\<close>

text \<open>
  Lines 113 to 134: fetching the data. The dispatch is on the fields of the
  descriptor as reread from the store; the last branch raises.
\<close>

definition fetch_source :: "env \<Rightarrow> dynmodel \<Rightarrow> (exn + csv) \<times> call list" where
  "fetch_source env d =
     (if truthy (csv_url d) \<and> truthy (csv_google_refresh_token d) then
        (let refresh_token = str_val (csv_google_refresh_token d)
         in case get_access_data env (get_setting env ''GOOGLE_CLIENT_ID'')
                   (get_setting env ''GOOGLE_CLIENT_SECRET'') refresh_token of
              Inl e \<Rightarrow> (Inl e, [CallGetAccessData refresh_token])
            | Inr access_data \<Rightarrow>
                (case access_data ''access_token'' of
                   None \<Rightarrow> (Inl (KeyError ''access_token''), [CallGetAccessData refresh_token])
                 | Some token \<Rightarrow>
                     (get_csv_from_url env token (str_val (csv_url d)),
                      [CallGetAccessData refresh_token,
                       CallGetCsvFromUrl token (str_val (csv_url d))])))
      else if truthy (csv_url d) then
        (fetch_csv env (str_val (csv_url d)), [CallFetchCsv (str_val (csv_url d))])
      else if truthy (sd_api_key d) then
        (build_csv env (str_val (sd_api_key d)) (sd_project_id d) (sd_form_id d),
         [CallBuildCsv (str_val (sd_api_key d)) (sd_project_id d) (sd_form_id d)])
      else (Inl (NotImplementedError (''Invalid data source for '' @ dynmodel_str env d)), []))"

text \<open>
  Lines 136 to 154: the import and the three ways the POST branch ends.
  \<open>refine_form\<close> is the form bound to \<^verbatim>\<open>request.POST\<close>, \<open>d\<close> the reread
  descriptor.
\<close>

definition import_and_respond ::
    "env \<Rightarrow> form_data \<Rightarrow> dynmodel \<Rightarrow> csv \<Rightarrow> store \<Rightarrow> result" where
  "import_and_respond env refine_form d csv_text st =
     (case import_records env csv_text d (tables st (dm_id d)) of
        (Inl e, rows) \<Rightarrow>
          (Inl e, st\<lparr>tables := (tables st)(dm_id d := rows)\<rparr>,
           [CallImportRecords csv_text (dm_id d)])
      | (Inr errs, rows) \<Rightarrow>
          (let st' = st\<lparr>tables := (tables st)(dm_id d := rows)\<rparr>;
               cs = [CallImportRecords csv_text (dm_id d), CallLoggerError errs]
           in if errs \<noteq> [] then
                (Inr (Render ''refine-and-import.html''
                        [(''form'', CtxForm refine_form),
                         (''dynmodel'', CtxDynmodel d),
                         (''errors'', CtxErrors errs)]), st', cs)
              else
                (let nxt = get_setting env ''CSV_MODELS_WIZARD_REDIRECT_TO''
                 in if truthy nxt then (Inr (Redirect (str_val nxt) []), st', cs)
                    else
                      (Inr (Render ''import-complete.html''
                              [(''dynmodel'', CtxDynmodel d),
                               (''n_records'', CtxCount (length (tables st' (dm_id d))))]),
                       st', cs))))"

text \<open>Lines 107 to 154: a valid form. Save, reread, fetch, import.\<close>

definition refine_post_valid ::
    "env \<Rightarrow> form_data \<Rightarrow> dynmodel \<Rightarrow> store \<Rightarrow> result" where
  "refine_post_valid env refine_form d st =
     (let cols = form_cleaned_columns env refine_form;
          d1 = d\<lparr>columns := cols\<rparr>;
          st1 = save env d1 st
      in case refresh_from_db st1 d1 of
           Inl e \<Rightarrow> (Inl e, st1, [CallSave d1])
         | Inr d2 \<Rightarrow>
             (case fetch_source env d2 of
                (Inl e, cs) \<Rightarrow> (Inl e, st1, CallSave d1 # cs)
              | (Inr csv_text, cs) \<Rightarrow>
                  (case import_and_respond env refine_form d2 csv_text st1 of
                     (out, st2, cs') \<Rightarrow> (out, st2, CallSave d1 # cs @ cs'))))"

text \<open>Lines 90 to 154.\<close>

definition refine_and_import_body :: "env \<Rightarrow> nat \<Rightarrow> request \<Rightarrow> store \<Rightarrow> result" where
  "refine_and_import_body env ident request st =
     (case get_object_or_404 st ident of
        Inl e \<Rightarrow> (Inl e, st, [])
      | Inr d \<Rightarrow>
          if http_method request = ''GET'' then
            (Inr (Render ''refine-and-import.html''
                    [(''form'', CtxForm (ColumnsData (columns d))),
                     (''dynmodel'', CtxDynmodel d)]), st, [])
          else if http_method request = ''POST'' then
            (let refine_form = PostData (POST request)
             in if form_errors env refine_form \<noteq> [] then
                  (Inr (Render ''refine-and-import.html''
                          [(''form'', CtxForm refine_form),
                           (''dynmodel'', CtxDynmodel d)]), st, [])
                else refine_post_valid env refine_form d st)
          else (Inr ReturnsNone, st, []))"

definition refine_and_import :: "env \<Rightarrow> request \<Rightarrow> nat \<Rightarrow> store \<Rightarrow> result" where
  "refine_and_import env request ident = login_required (refine_and_import_body env ident) request"

subsection \<open>\<^verbatim>\<open>refine_and_import_by_name\<close>\<close>

text \<open>
  Modelled from the spec: \<^verbatim>\<open>DynamicModel.objects.get_or_404\<close> is a method of
  the model's manager, defined in \<^verbatim>\<open>models.py\<close>, which is not among the sources. The
  spec: "resolve a schema identity by human-readable name instead of numeric
  id"; "unresolvable name yields not found".
\<close>

definition get_or_404 :: "store \<Rightarrow> string \<Rightarrow> exn + nat" where
  "get_or_404 st nm =
     (case find (\<lambda>d. dm_name d = nm) (dynmodels st) of
        None \<Rightarrow> Inl Http404
      | Some d \<Rightarrow> Inr (dm_id d))"

definition refine_and_import_by_name_body :: "env \<Rightarrow> string \<Rightarrow> request \<Rightarrow> store \<Rightarrow> result" where
  "refine_and_import_by_name_body env nm request st =
     (case get_or_404 st nm of
        Inl e \<Rightarrow> (Inl e, st, [])
      | Inr ident \<Rightarrow> refine_and_import env request ident st)"

definition refine_and_import_by_name :: "env \<Rightarrow> request \<Rightarrow> string \<Rightarrow> store \<Rightarrow> result" where
  "refine_and_import_by_name env request nm =
     login_required (refine_and_import_by_name_body env nm) request"

subsection \<open>\<^verbatim>\<open>import_data\<close>\<close>

text \<open>
  Lines 172 to 178. The excerpt ends inside the POST branch, after
  \<^verbatim>\<open>Model = dynmodel.get_model()\<close>; what follows is the parameter
  \<open>import_data_post\<close>.
\<close>

definition import_data_body :: "env \<Rightarrow> nat \<Rightarrow> request \<Rightarrow> store \<Rightarrow> result" where
  "import_data_body env ident request st =
     (case get_object_or_404 st ident of
        Inl e \<Rightarrow> (Inl e, st, [])
      | Inr d \<Rightarrow>
          if http_method request = ''GET'' then
            (Inr (Render ''import-data.html'' [(''dynmodel'', CtxDynmodel d)]), st, [])
          else if http_method request = ''POST'' then
            (case import_data_post env request d st of
               (out, st') \<Rightarrow> (out, st', [CallImportDataPost (dm_id d)]))
          else (Inr ReturnsNone, st, []))"

definition import_data :: "env \<Rightarrow> request \<Rightarrow> nat \<Rightarrow> store \<Rightarrow> result" where
  "import_data env request ident = login_required (import_data_body env ident) request"

subsection \<open>The factories and the importer, from the spec\<close>

text \<open>
  The views call the factories and the importer; what these do to the store
  is fixed in the modules \<^verbatim>\<open>utils/dynmodel.py\<close> and \<^verbatim>\<open>utils/importing.py\<close>,
  which are not among the sources. The handlers above take them as
  parameters. The definitions of this subsection are the instances the spec
  describes, for the claims that speak of the descriptor a factory creates
  and of the rows the importer writes.
\<close>

text \<open>
  Modelled from the spec: the identity of a new descriptor, assigned by the
  persistence layer behind the absent factories. The spec calls it a
  "surrogate id"; the model takes the successor of the largest id in use.
\<close>

definition new_id :: "store \<Rightarrow> nat" where
  "new_id st = Suc (fold max (map dm_id (dynmodels st)) 0)"

text \<open>
  Modelled from the spec: the descriptor the absent factories start from,
  which has the given name and no source field populated.
\<close>

definition blank_dynmodel :: "string option \<Rightarrow> dynmodel" where
  "blank_dynmodel nm =
     \<lparr>dm_id = 0, dm_name = str_val nm, columns = [], csv_url = None,
      csv_google_refresh_token = None, sd_api_key = None, sd_project_id = None,
      sd_form_id = None\<rparr>"

text \<open>
  Modelled from the spec: the part the three absent factories share. The
  spec: the factory "infers columns and creates a persisted schema descriptor
  plus a backing data table"; "if the factory detects duplicate/invalid column
  names, it fails with a non-unique column condition". The inference of the
  columns of a source (which may raise, the source being fetched) and the
  message of the error are parameters. On failure nothing is written.
\<close>

definition create_schema ::
    "(dynmodel \<Rightarrow> exn + column list) \<Rightarrow> (column list \<Rightarrow> string) \<Rightarrow>
     dynmodel \<Rightarrow> store \<Rightarrow> (exn + dynmodel) \<times> store" where
  "create_schema infer_columns describe source st =
     (case infer_columns source of
        Inl e \<Rightarrow> (Inl e, st)
      | Inr cols \<Rightarrow>
          if \<not> distinct (map fst cols) then (Inl (UniqueColumnError (describe cols)), st)
          else (let d = source\<lparr>dm_id := new_id st, columns := cols\<rparr>
                in (Inr d, st\<lparr>dynmodels := dynmodels st @ [d],
                               tables := (tables st)(new_id st := [])\<rparr>)))"

text \<open>
  Modelled from the spec: \<^verbatim>\<open>from_csv_url\<close>, absent from the sources. The
  source descriptor of a direct CSV is its URL.
\<close>

definition from_csv_url_spec ::
    "(dynmodel \<Rightarrow> exn + column list) \<Rightarrow> (column list \<Rightarrow> string) \<Rightarrow>
     string option \<Rightarrow> string \<Rightarrow> string option \<Rightarrow> store \<Rightarrow> (exn + dynmodel) \<times> store" where
  "from_csv_url_spec infer_columns describe nm url code st =
     create_schema infer_columns describe ((blank_dynmodel nm)\<lparr>csv_url := Some url\<rparr>) st"

text \<open>
  Modelled from the spec: \<^verbatim>\<open>from_private_sheet\<close>, absent from the sources. The
  source descriptor of a private sheet is its URL and the refresh token; the
  exchange of the auth code for the refresh token is a parameter and may
  raise.
\<close>

definition from_private_sheet_spec ::
    "(string \<Rightarrow> exn + string) \<Rightarrow> (dynmodel \<Rightarrow> exn + column list) \<Rightarrow>
     (column list \<Rightarrow> string) \<Rightarrow>
     string option \<Rightarrow> string \<Rightarrow> string \<Rightarrow> store \<Rightarrow> (exn + dynmodel) \<times> store" where
  "from_private_sheet_spec exchange infer_columns describe nm url code st =
     (case exchange code of
        Inl e \<Rightarrow> (Inl e, st)
      | Inr refresh_token \<Rightarrow>
          create_schema infer_columns describe
            ((blank_dynmodel nm)\<lparr>csv_url := Some url,
               csv_google_refresh_token := Some refresh_token\<rparr>) st)"

text \<open>
  Modelled from the spec: \<^verbatim>\<open>from_screendoor\<close>, absent from the sources. The
  source descriptor of the form service is the API key, the project id and
  the optional form id.
\<close>

definition from_screendoor_spec ::
    "(dynmodel \<Rightarrow> exn + column list) \<Rightarrow> (column list \<Rightarrow> string) \<Rightarrow>
     string option \<Rightarrow> string \<Rightarrow> int \<Rightarrow> int option \<Rightarrow> store \<Rightarrow> (exn + dynmodel) \<times> store" where
  "from_screendoor_spec infer_columns describe nm key project_id form_id st =
     create_schema infer_columns describe
       ((blank_dynmodel nm)\<lparr>sd_api_key := Some key, sd_project_id := Some project_id,
          sd_form_id := form_id\<rparr>) st"

text \<open>
  Modelled from the spec: \<^verbatim>\<open>import_records\<close>, absent from the sources. The
  spec: the importer, "given parsed CSV rows and a target schema, writes rows
  into the backing table and collects per-row errors"; the table holds "one
  row per CSV record", "rows inserted by the importer". The parsing of the
  text into records and the validation of one record against the schema are
  parameters. A record with an error is reported and not written.
\<close>

definition import_records_spec ::
    "(csv \<Rightarrow> row list) \<Rightarrow> (dynmodel \<Rightarrow> row \<Rightarrow> import_error option) \<Rightarrow>
     csv \<Rightarrow> dynmodel \<Rightarrow> row list \<Rightarrow> (exn + import_error list) \<times> row list" where
  "import_records_spec parse_rows row_error csv_text d rows =
     (let records = parse_rows csv_text
      in (Inr (List.map_filter (row_error d) records),
          rows @ filter (\<lambda>r. row_error d r = None) records))"

subsection \<open>A concrete environment\<close>

text \<open>
  One instance of the collaborators, used to run the handlers on concrete
  requests. Its factories and its importer are instances of the ones
  modelled from the spec: the columns inferred are a single column \<open>a\<close>,
  twice for the URL \<open>''http://dup''\<close> and for the API key \<open>''dup''\<close>; the
  fetched text is parsed as one record, and the record \<open>''bad''\<close> has an
  error.
\<close>

definition demo_infer_columns :: "dynmodel \<Rightarrow> exn + column list" where
  "demo_infer_columns source =
     (if csv_url source = Some ''http://dup'' \<or> sd_api_key source = Some ''dup''
      then Inr [(''a'', ''text''), (''a'', ''number'')]
      else Inr [(''a'', ''text'')])"

definition demo_describe :: "column list \<Rightarrow> string" where
  "demo_describe cols = ''duplicate column: a''"

definition demo_exchange :: "string \<Rightarrow> exn + string" where
  "demo_exchange code = Inr (''rt-'' @ code)"

definition demo_from_private_sheet ::
    "string option \<Rightarrow> string \<Rightarrow> string \<Rightarrow> store \<Rightarrow> (exn + dynmodel) \<times> store" where
  "demo_from_private_sheet =
     from_private_sheet_spec demo_exchange demo_infer_columns demo_describe"

definition demo_from_csv_url ::
    "string option \<Rightarrow> string \<Rightarrow> string option \<Rightarrow> store \<Rightarrow> (exn + dynmodel) \<times> store" where
  "demo_from_csv_url = from_csv_url_spec demo_infer_columns demo_describe"

definition demo_from_screendoor ::
    "string option \<Rightarrow> string \<Rightarrow> int \<Rightarrow> int option \<Rightarrow> store \<Rightarrow> (exn + dynmodel) \<times> store" where
  "demo_from_screendoor = from_screendoor_spec demo_infer_columns demo_describe"

definition demo_int_of_str :: "string \<Rightarrow> int option" where
  "demo_int_of_str s = (if s = ''7'' then Some 7 else if s = ''3'' then Some 3 else None)"

definition demo_form_errors :: "form_data \<Rightarrow> form_error list" where
  "demo_form_errors f =
     (case f of
        PostData p \<Rightarrow> (if truthy (p ''columns'') then [] else [''This field is required.''])
      | ColumnsData cols \<Rightarrow> [])"

definition demo_form_cleaned_columns :: "form_data \<Rightarrow> column list" where
  "demo_form_cleaned_columns f =
     (case f of
        PostData p \<Rightarrow> [(str_val (p ''columns''), ''text'')]
      | ColumnsData cols \<Rightarrow> cols)"

definition demo_get_access_data ::
    "string option \<Rightarrow> string option \<Rightarrow> string \<Rightarrow> exn + (string \<rightharpoonup> string)" where
  "demo_get_access_data client_id secret refresh_token =
     Inr [''access_token'' \<mapsto> ''at-'' @ refresh_token]"

definition demo_fetch_csv :: "string \<Rightarrow> exn + csv" where
  "demo_fetch_csv url = (if url = ''http://bad'' then Inr ''bad'' else Inr ''direct'')"

definition demo_parse_rows :: "csv \<Rightarrow> row list" where
  "demo_parse_rows csv_text = [[csv_text]]"

definition demo_row_error :: "dynmodel \<Rightarrow> row \<Rightarrow> import_error option" where
  "demo_row_error d r = (if r = [''bad''] then Some ''row 1: invalid value'' else None)"

definition demo_import_records ::
    "csv \<Rightarrow> dynmodel \<Rightarrow> row list \<Rightarrow> (exn + import_error list) \<times> row list" where
  "demo_import_records = import_records_spec demo_parse_rows demo_row_error"

definition demo_env :: env where
  "demo_env =
     \<lparr>from_private_sheet = demo_from_private_sheet,
      from_csv_url = demo_from_csv_url,
      from_screendoor = demo_from_screendoor,
      int_of_str = demo_int_of_str,
      form_errors = demo_form_errors,
      form_cleaned_columns = demo_form_cleaned_columns,
      get_setting = (\<lambda>k. None),
      get_access_data = demo_get_access_data,
      get_csv_from_url = (\<lambda>token url. Inr ''sheet''),
      fetch_csv = demo_fetch_csv,
      build_csv = (\<lambda>key project_id form_id. Inr ''form''),
      import_records = demo_import_records,
      alter_table = (\<lambda>d rows. rows),
      dynmodel_str = dm_name,
      import_data_post = (\<lambda>request d st. (Inr (Redirect ''/admin/'' []), st))\<rparr>"



text \<open>
  Descriptors with id 1: one with no source field populated, and one for each
  kind of source. Stores: the empty one, and the store holding one descriptor.
\<close>

definition empty_store :: store where
  "empty_store = \<lparr>dynmodels = [], tables = (\<lambda>i. [])\<rparr>"

definition demo_dynmodel :: dynmodel where
  "demo_dynmodel =
     \<lparr>dm_id = 1, dm_name = ''survey'', columns = [(''a'', ''text'')],
      csv_url = None, csv_google_refresh_token = None,
      sd_api_key = None, sd_project_id = None, sd_form_id = None\<rparr>"

definition demo_csv_dynmodel :: dynmodel where
  "demo_csv_dynmodel = demo_dynmodel\<lparr>csv_url := Some ''http://x''\<rparr>"

definition demo_bad_dynmodel :: dynmodel where
  "demo_bad_dynmodel = demo_dynmodel\<lparr>csv_url := Some ''http://bad''\<rparr>"

definition demo_sheet_dynmodel :: dynmodel where
  "demo_sheet_dynmodel =
     demo_dynmodel\<lparr>csv_url := Some ''http://x'', csv_google_refresh_token := Some ''rt''\<rparr>"

definition demo_form_dynmodel :: dynmodel where
  "demo_form_dynmodel = demo_dynmodel\<lparr>sd_api_key := Some ''k'', sd_project_id := Some 7\<rparr>"

definition store_of :: "dynmodel \<Rightarrow> store" where
  "store_of d = \<lparr>dynmodels = [d], tables = (\<lambda>i. [])\<rparr>"

text \<open>Requests of an authenticated user.\<close>

definition get_request :: "(string \<times> string) list \<Rightarrow> request" where
  "get_request params =
     \<lparr>http_method = ''GET'', GET = map_of params, POST = Map.empty, user_is_authenticated = True\<rparr>"

definition post_request :: "(string \<times> string) list \<Rightarrow> request" where
  "post_request params =
     \<lparr>http_method = ''POST'', GET = Map.empty, POST = map_of params, user_is_authenticated = True\<rparr>"

section \<open>Properties\<close>

subsection \<open>Facts about the primitives\<close>

lemma demo_env_simps:
  "from_private_sheet demo_env = demo_from_private_sheet"
  "from_csv_url demo_env = demo_from_csv_url"
  "from_screendoor demo_env = demo_from_screendoor"
  "int_of_str demo_env = demo_int_of_str"
  "form_errors demo_env = demo_form_errors"
  "form_cleaned_columns demo_env = demo_form_cleaned_columns"
  "get_setting demo_env = (\<lambda>k. None)"
  "get_access_data demo_env = demo_get_access_data"
  "get_csv_from_url demo_env = (\<lambda>token url. Inr ''sheet'')"
  "fetch_csv demo_env = demo_fetch_csv"
  "build_csv demo_env = (\<lambda>key project_id form_id. Inr ''form'')"
  "import_records demo_env = demo_import_records"
  "alter_table demo_env = (\<lambda>d rows. rows)"
  "dynmodel_str demo_env = dm_name"
  by (simp_all add: demo_env_def)



lemma demo_import_records_eval:
  "demo_import_records csv_text d rows =
     (if csv_text = ''bad'' then (Inr [''row 1: invalid value''], rows)
      else (Inr [], rows @ [[csv_text]]))"
  by (simp add: demo_import_records_def import_records_spec_def demo_parse_rows_def
      demo_row_error_def List.map_filter_simps)

lemmas demo_defs =
  demo_from_private_sheet_def demo_from_csv_url_def demo_from_screendoor_def
  from_private_sheet_spec_def from_csv_url_spec_def from_screendoor_spec_def
  create_schema_def blank_dynmodel_def new_id_def
  demo_infer_columns_def demo_describe_def demo_exchange_def
  demo_int_of_str_def demo_form_errors_def demo_form_cleaned_columns_def
  demo_get_access_data_def demo_fetch_csv_def demo_import_records_eval
  demo_dynmodel_def demo_csv_dynmodel_def
  demo_bad_dynmodel_def demo_sheet_dynmodel_def demo_form_dynmodel_def
  empty_store_def store_of_def post_request_def get_request_def

lemma truthy_iff: "truthy v \<longleftrightarrow> v \<notin> {None, Some []}"
  by (cases v) (simp_all add: truthy_def)

lemma find_upsert: "find (\<lambda>x. dm_id x = dm_id d) (upsert d xs) = Some d"
  by (induction xs) auto

lemma find_dm_id: "find (\<lambda>x. dm_id x = i) xs = Some d \<Longrightarrow> dm_id d = i"
  by (induction xs) (auto split: if_splits)

lemma get_object_or_404_id: "get_object_or_404 st i = Inr d \<Longrightarrow> dm_id d = i"
  by (auto simp: get_object_or_404_def split: option.splits dest: find_dm_id)

lemma refresh_after_save: "refresh_from_db (save env d st) d = Inr d"
  by (simp add: refresh_from_db_def save_def find_upsert)

lemma get_after_save: "get_object_or_404 (save env d st) (dm_id d) = Inr d"
  by (simp add: get_object_or_404_def save_def find_upsert)

lemma get_object_or_404_tables_update:
  "get_object_or_404 (st\<lparr>tables := t\<rparr>) i = get_object_or_404 st i"
  by (simp add: get_object_or_404_def)

subsection \<open>\<^verbatim>\<open>begin\<close>, GET\<close>

text \<open>
  C8, as amended. For a GET to \<^verbatim>\<open>begin\<close> by a logged-in user: if the
  \<^verbatim>\<open>addnew\<close> query parameter has a non-empty value, the intake form is
  rendered whatever the number of schema descriptors; otherwise (the
  parameter is absent or empty), if at least one schema descriptor exists the
  handler redirects to \<^verbatim>\<open>/admin/\<close>; otherwise it renders the intake form. The
  store is left as it was and no collaborator is called.
\<close>

theorem begin_get_dispatch:
  assumes "user_is_authenticated request" and "http_method request = ''GET''"
  shows "begin_view env request st =
           (Inr (if GET request ''addnew'' \<notin> {None, Some []} then Render ''begin.html'' []
                 else if dynmodels st \<noteq> [] then Redirect ''/admin/'' []
                 else Render ''begin.html'' []), st, [])"
  using assms
  by (simp add: begin_view_def login_required_def begin_body_def begin_get_def Let_def
      truthy_iff)

theorem begin_get_dispatch_witness:
  "begin_view demo_env (get_request [(''addnew'', ''1'')]) (store_of demo_dynmodel) =
     (Inr (Render ''begin.html'' []), store_of demo_dynmodel, [])
   \<and> begin_view demo_env (get_request [(''addnew'', '''')]) (store_of demo_dynmodel) =
     (Inr (Redirect ''/admin/'' []), store_of demo_dynmodel, [])
   \<and> begin_view demo_env (get_request []) (store_of demo_dynmodel) =
     (Inr (Redirect ''/admin/'' []), store_of demo_dynmodel, [])
   \<and> begin_view demo_env (get_request []) empty_store =
     (Inr (Render ''begin.html'' []), empty_store, [])"
  using begin_get_dispatch [of "get_request [(''addnew'', ''1'')]" demo_env "store_of demo_dynmodel"]
    begin_get_dispatch [of "get_request [(''addnew'', '''')]" demo_env "store_of demo_dynmodel"]
    begin_get_dispatch [of "get_request []" demo_env "store_of demo_dynmodel"]
    begin_get_dispatch [of "get_request []" demo_env empty_store]
  by (simp add: get_request_def store_of_def empty_store_def)

text \<open>
  C8 as stated fails: the request \<^verbatim>\<open>GET /begin?addnew=\<close> carries the
  \<^verbatim>\<open>addnew\<close> flag, with an empty value, and \<^verbatim>\<open>if addnew:\<close> is false for
  the empty string. With one descriptor in the store the answer is the
  redirect to \<^verbatim>\<open>/admin/\<close>, not the intake form.
\<close>

theorem begin_addnew_present_counterexample:
  "GET (get_request [(''addnew'', '''')]) ''addnew'' \<noteq> None
   \<and> fst (begin_view demo_env (get_request [(''addnew'', '''')]) (store_of demo_dynmodel)) =
       Inr (Redirect ''/admin/'' [])"
  by (simp add: begin_view_def login_required_def begin_body_def begin_get_def Let_def
      truthy_def get_request_def store_of_def)

subsection \<open>\<^verbatim>\<open>begin\<close>, POST\<close>

text \<open>
  C10. A POST to \<^verbatim>\<open>begin\<close> by a logged-in user in which \<^verbatim>\<open>csv_url\<close> is
  absent or empty and \<^verbatim>\<open>sd_api_key\<close> is absent or empty runs no branch of the
  dispatch: no factory is called, the store is untouched, the local
  \<^verbatim>\<open>dynmodel\<close> is never bound, and the final \<^verbatim>\<open>redirect\<close> raises
  \<^verbatim>\<open>UnboundLocalError\<close> instead of returning a response.
\<close>

theorem begin_post_no_source_unbound:
  assumes "user_is_authenticated request" and "http_method request = ''POST''"
    and "POST request ''csv_url'' \<in> {None, Some []}"
    and "POST request ''sd_api_key'' \<in> {None, Some []}"
  shows "begin_view env request st = (Inl (UnboundLocalError ''dynmodel''), st, [])"
proof -
  have "\<not> truthy (POST request ''csv_url'')" and "\<not> truthy (POST request ''sd_api_key'')"
    using assms(3,4) by (simp_all add: truthy_iff)
  then have "begin_try env request st = (Inr None, st, [])"
    by (simp add: begin_try_def Let_def)
  then show ?thesis
    using assms(1,2) by (simp add: begin_view_def login_required_def begin_body_def begin_post_def)
qed

theorem begin_post_no_source_unbound_witness:
  "begin_view demo_env (post_request []) empty_store =
     (Inl (UnboundLocalError ''dynmodel''), empty_store, [])
   \<and> begin_view demo_env (post_request [(''csv_url'', ''''), (''sd_api_key'', '''')]) empty_store =
     (Inl (UnboundLocalError ''dynmodel''), empty_store, [])"
  using begin_post_no_source_unbound [of "post_request []" demo_env empty_store]
    begin_post_no_source_unbound
      [of "post_request [(''csv_url'', ''''), (''sd_api_key'', '''')]" demo_env empty_store]
  by (simp add: post_request_def)

lemma begin_view_post:
  "user_is_authenticated request \<Longrightarrow> http_method request = ''POST'' \<Longrightarrow>
   begin_view env request st = begin_post env request st"
  by (simp add: begin_view_def login_required_def begin_body_def)

lemma begin_try_private_sheet:
  assumes "POST request ''csv_url'' = Some url" and "url \<noteq> []"
    and "POST request ''csv_google_sheets_auth_code'' = Some code" and "code \<noteq> []"
    and "from_private_sheet env (POST request ''csv_name'') url code st = (r, st')"
  shows "begin_try env request st =
           (map_sum (\<lambda>e. e) Some r, st', [CallFromPrivateSheet (POST request ''csv_name'') url code])"
  using assms by (simp add: begin_try_def truthy_def str_val_def)

lemma begin_try_csv_url:
  assumes "POST request ''csv_url'' = Some url" and "url \<noteq> []"
    and "POST request ''csv_google_sheets_auth_code'' \<in> {None, Some []}"
    and "from_csv_url env (POST request ''csv_name'') url
           (POST request ''csv_google_sheets_auth_code'') st = (r, st')"
  shows "begin_try env request st =
           (map_sum (\<lambda>e. e) Some r, st',
            [CallFromCsvUrl (POST request ''csv_name'') url
               (POST request ''csv_google_sheets_auth_code'')])"
  using assms by (auto simp: begin_try_def truthy_def str_val_def)

lemma begin_try_screendoor:
  assumes "POST request ''csv_url'' \<in> {None, Some []}"
    and "POST request ''sd_api_key'' = Some key" and "key \<noteq> []"
    and "py_int env (POST request ''sd_project_id'') = Inr project_id"
    and "form_id_arg env (POST request ''sd_form_id'') = Inr form_id"
    and "from_screendoor env (POST request ''sd_name'') key project_id form_id st = (r, st')"
  shows "begin_try env request st =
           (map_sum (\<lambda>e. e) Some r, st',
            [CallFromScreendoor (POST request ''sd_name'') key project_id form_id])"
  using assms by (auto simp: begin_try_def truthy_def str_val_def)

lemma begin_post_dispatch:
  assumes "user_is_authenticated request" and "http_method request = ''POST''"
  shows
    "(POST request ''csv_url'' = Some url \<and> url \<noteq> [] \<and>
      POST request ''csv_google_sheets_auth_code'' = Some code \<and> code \<noteq> [] \<and>
      from_private_sheet env (POST request ''csv_name'') url code st = (Inr d, st')
      \<longrightarrow> begin_view env request st =
            (Inr (Redirect ''csv_models:refine-and-import'' [dm_id d]), st',
             [CallFromPrivateSheet (POST request ''csv_name'') url code]))
     \<and> (POST request ''csv_url'' = Some url \<and> url \<noteq> [] \<and>
      POST request ''csv_google_sheets_auth_code'' \<in> {None, Some []} \<and>
      from_csv_url env (POST request ''csv_name'') url
        (POST request ''csv_google_sheets_auth_code'') st = (Inr d, st')
      \<longrightarrow> begin_view env request st =
            (Inr (Redirect ''csv_models:refine-and-import'' [dm_id d]), st',
             [CallFromCsvUrl (POST request ''csv_name'') url
                (POST request ''csv_google_sheets_auth_code'')]))
     \<and> (POST request ''csv_url'' \<in> {None, Some []} \<and>
      POST request ''sd_api_key'' = Some key \<and> key \<noteq> [] \<and>
      py_int env (POST request ''sd_project_id'') = Inr project_id \<and>
      form_id_arg env (POST request ''sd_form_id'') = Inr form_id \<and>
      from_screendoor env (POST request ''sd_name'') key project_id form_id st = (Inr d, st')
      \<longrightarrow> begin_view env request st =
            (Inr (Redirect ''csv_models:refine-and-import'' [dm_id d]), st',
             [CallFromScreendoor (POST request ''sd_name'') key project_id form_id]))"
proof (intro conjI impI)
  assume h: "POST request ''csv_url'' = Some url \<and> url \<noteq> [] \<and>
      POST request ''csv_google_sheets_auth_code'' = Some code \<and> code \<noteq> [] \<and>
      from_private_sheet env (POST request ''csv_name'') url code st = (Inr d, st')"
  then have "begin_try env request st =
      (Inr (Some d), st', [CallFromPrivateSheet (POST request ''csv_name'') url code])"
    using begin_try_private_sheet [of request url code env st "Inr d" st'] by simp
  then show "begin_view env request st =
            (Inr (Redirect ''csv_models:refine-and-import'' [dm_id d]), st',
             [CallFromPrivateSheet (POST request ''csv_name'') url code])"
    using assms by (simp add: begin_view_post begin_post_def)
next
  assume h: "POST request ''csv_url'' = Some url \<and> url \<noteq> [] \<and>
      POST request ''csv_google_sheets_auth_code'' \<in> {None, Some []} \<and>
      from_csv_url env (POST request ''csv_name'') url
        (POST request ''csv_google_sheets_auth_code'') st = (Inr d, st')"
  then have "begin_try env request st =
      (Inr (Some d), st', [CallFromCsvUrl (POST request ''csv_name'') url
                (POST request ''csv_google_sheets_auth_code'')])"
    using begin_try_csv_url [of request url env st "Inr d" st'] by simp
  then show "begin_view env request st =
            (Inr (Redirect ''csv_models:refine-and-import'' [dm_id d]), st',
             [CallFromCsvUrl (POST request ''csv_name'') url
                (POST request ''csv_google_sheets_auth_code'')])"
    using assms by (simp add: begin_view_post begin_post_def)
next
  assume h: "POST request ''csv_url'' \<in> {None, Some []} \<and>
      POST request ''sd_api_key'' = Some key \<and> key \<noteq> [] \<and>
      py_int env (POST request ''sd_project_id'') = Inr project_id \<and>
      form_id_arg env (POST request ''sd_form_id'') = Inr form_id \<and>
      from_screendoor env (POST request ''sd_name'') key project_id form_id st = (Inr d, st')"
  then have "begin_try env request st =
      (Inr (Some d), st', [CallFromScreendoor (POST request ''sd_name'') key project_id form_id])"
    using begin_try_screendoor [of request key env project_id form_id st "Inr d" st'] by simp
  then show "begin_view env request st =
            (Inr (Redirect ''csv_models:refine-and-import'' [dm_id d]), st',
             [CallFromScreendoor (POST request ''sd_name'') key project_id form_id])"
    using assms by (simp add: begin_view_post begin_post_def)
qed


lemma fold_max_ge: "(a::nat) \<le> fold max xs a"
proof (induction xs arbitrary: a)
  case Nil
  then show ?case by simp
next
  case (Cons x xs)
  have "a \<le> max x a" by simp
  also have "max x a \<le> fold max xs (max x a)" by (rule Cons.IH)
  finally show ?case by simp
qed

lemma fold_max_upper: "x \<in> set xs \<Longrightarrow> (x::nat) \<le> fold max xs a"
proof (induction xs arbitrary: a)
  case Nil
  then show ?case by simp
next
  case (Cons y ys)
  show ?case
  proof (cases "x = y")
    case True
    have "x \<le> max y a" using True by simp
    also have "max y a \<le> fold max ys (max y a)" by (rule fold_max_ge)
    finally show ?thesis by simp
  next
    case False
    then have "x \<in> set ys" using Cons.prems by simp
    then have "x \<le> fold max ys (max y a)" by (rule Cons.IH)
    then show ?thesis by simp
  qed
qed

lemma new_id_fresh: "new_id st \<notin> dm_id ` set (dynmodels st)"
proof
  assume "new_id st \<in> dm_id ` set (dynmodels st)"
  then have "new_id st \<in> set (map dm_id (dynmodels st))" by simp
  then have "new_id st \<le> fold max (map dm_id (dynmodels st)) 0" by (rule fold_max_upper)
  then show False by (simp add: new_id_def)
qed

lemma create_schema_Inr:
  assumes "create_schema infer_columns describe source st = (Inr d, st')"
  shows "dm_id d = new_id st \<and> dm_name d = dm_name source
         \<and> csv_url d = csv_url source
         \<and> csv_google_refresh_token d = csv_google_refresh_token source
         \<and> sd_api_key d = sd_api_key source \<and> sd_project_id d = sd_project_id source
         \<and> sd_form_id d = sd_form_id source
         \<and> infer_columns source = Inr (columns d) \<and> distinct (map fst (columns d))
         \<and> dynmodels st' = dynmodels st @ [d]
         \<and> tables st' = (tables st)(new_id st := [])"
  using assms by (auto simp: create_schema_def Let_def split: sum.splits if_splits)

lemma begin_post_calls:
  "snd (snd (begin_post env request st)) = snd (snd (begin_try env request st))"
  by (simp add: begin_post_def split: prod.splits sum.splits exn.splits option.splits)


lemma begin_post_private_sheet_case:
  assumes "user_is_authenticated request" and "http_method request = ''POST''"
    and "from_private_sheet env = from_private_sheet_spec exchange infer_columns describe"
  shows "POST request ''csv_url'' = Some url \<and> url \<noteq> [] \<and>
         POST request ''csv_google_sheets_auth_code'' = Some code \<and> code \<noteq> []
         \<longrightarrow> snd (snd (begin_view env request st)) =
               [CallFromPrivateSheet (POST request ''csv_name'') url code]
             \<and> (from_private_sheet env (POST request ''csv_name'') url code st = (Inr d, st')
                \<longrightarrow> begin_view env request st =
                      (Inr (Redirect ''csv_models:refine-and-import'' [dm_id d]), st',
                       [CallFromPrivateSheet (POST request ''csv_name'') url code])
                    \<and> dynmodels st' = dynmodels st @ [d]
                    \<and> dm_id d \<notin> dm_id ` set (dynmodels st)
                    \<and> csv_url d = Some url
                    \<and> (\<exists>rt. exchange code = Inr rt \<and> csv_google_refresh_token d = Some rt)
                    \<and> sd_api_key d = None)"
    (is "?A \<longrightarrow> ?Q \<and> (?R \<longrightarrow> ?S)")
proof (rule impI)
  assume a: ?A
  obtain r st1 where
    r: "from_private_sheet env (POST request ''csv_name'') url code st = (r, st1)"
    by (cases "from_private_sheet env (POST request ''csv_name'') url code st")
  have "begin_try env request st =
          (map_sum (\<lambda>e. e) Some r, st1, [CallFromPrivateSheet (POST request ''csv_name'') url code])"
    using begin_try_private_sheet [of request url code env st r st1] a r by blast
  then have q: ?Q
    using assms(1,2) by (simp add: begin_view_post begin_post_calls)
  have rs: "?R \<longrightarrow> ?S"
  proof
    assume f: ?R
    obtain rt where ex: "exchange code = Inr rt"
      and cs: "create_schema infer_columns describe
                 ((blank_dynmodel (POST request ''csv_name''))
                    \<lparr>csv_url := Some url, csv_google_refresh_token := Some rt\<rparr>) st = (Inr d, st')"
      using f assms(3) by (auto simp: from_private_sheet_spec_def split: sum.splits)
    have red: "begin_view env request st =
                 (Inr (Redirect ''csv_models:refine-and-import'' [dm_id d]), st',
                  [CallFromPrivateSheet (POST request ''csv_name'') url code])"
      using begin_post_dispatch [OF assms(1,2), of url code env st d st'] a f by blast
    have fresh: "dm_id d \<notin> dm_id ` set (dynmodels st)"
      using create_schema_Inr [OF cs] new_id_fresh [of st] by simp
    have fields: "dynmodels st' = dynmodels st @ [d] \<and> csv_url d = Some url
        \<and> csv_google_refresh_token d = Some rt \<and> sd_api_key d = None"
      using create_schema_Inr [OF cs] by (simp add: blank_dynmodel_def)
    show ?S using red fresh fields ex by blast
  qed
  show "?Q \<and> (?R \<longrightarrow> ?S)" using q rs by blast
qed

lemma begin_post_csv_url_case:
  assumes "user_is_authenticated request" and "http_method request = ''POST''"
    and "from_csv_url env = from_csv_url_spec infer_columns describe"
  shows "POST request ''csv_url'' = Some url \<and> url \<noteq> [] \<and>
         POST request ''csv_google_sheets_auth_code'' \<in> {None, Some []}
         \<longrightarrow> snd (snd (begin_view env request st)) =
               [CallFromCsvUrl (POST request ''csv_name'') url
                  (POST request ''csv_google_sheets_auth_code'')]
             \<and> (from_csv_url env (POST request ''csv_name'') url
                  (POST request ''csv_google_sheets_auth_code'') st = (Inr d, st')
                \<longrightarrow> begin_view env request st =
                      (Inr (Redirect ''csv_models:refine-and-import'' [dm_id d]), st',
                       [CallFromCsvUrl (POST request ''csv_name'') url
                          (POST request ''csv_google_sheets_auth_code'')])
                    \<and> dynmodels st' = dynmodels st @ [d]
                    \<and> dm_id d \<notin> dm_id ` set (dynmodels st)
                    \<and> csv_url d = Some url
                    \<and> csv_google_refresh_token d = None
                    \<and> sd_api_key d = None)"
    (is "?A \<longrightarrow> ?Q \<and> (?R \<longrightarrow> ?S)")
proof (rule impI)
  assume a: ?A
  obtain r st1 where
    r: "from_csv_url env (POST request ''csv_name'') url
          (POST request ''csv_google_sheets_auth_code'') st = (r, st1)"
    by (cases "from_csv_url env (POST request ''csv_name'') url
                 (POST request ''csv_google_sheets_auth_code'') st")
  have "begin_try env request st =
          (map_sum (\<lambda>e. e) Some r, st1,
           [CallFromCsvUrl (POST request ''csv_name'') url
              (POST request ''csv_google_sheets_auth_code'')])"
    using begin_try_csv_url [of request url env st r st1] a r by blast
  then have q: ?Q
    using assms(1,2) by (simp add: begin_view_post begin_post_calls)
  have rs: "?R \<longrightarrow> ?S"
  proof
    assume f: ?R
    have cs: "create_schema infer_columns describe
                 ((blank_dynmodel (POST request ''csv_name''))\<lparr>csv_url := Some url\<rparr>) st =
              (Inr d, st')"
      using f assms(3) by (simp add: from_csv_url_spec_def)
    have red: "begin_view env request st =
                 (Inr (Redirect ''csv_models:refine-and-import'' [dm_id d]), st',
                  [CallFromCsvUrl (POST request ''csv_name'') url
                     (POST request ''csv_google_sheets_auth_code'')])"
      using begin_post_dispatch [OF assms(1,2), of url _ env st d st'] a f by blast
    have fresh: "dm_id d \<notin> dm_id ` set (dynmodels st)"
      using create_schema_Inr [OF cs] new_id_fresh [of st] by simp
    have fields: "dynmodels st' = dynmodels st @ [d] \<and> csv_url d = Some url
        \<and> csv_google_refresh_token d = None \<and> sd_api_key d = None"
      using create_schema_Inr [OF cs] by (simp add: blank_dynmodel_def)
    show ?S using red fresh fields by blast
  qed
  show "?Q \<and> (?R \<longrightarrow> ?S)" using q rs by blast
qed

lemma begin_post_screendoor_case:
  assumes "user_is_authenticated request" and "http_method request = ''POST''"
    and "from_screendoor env = from_screendoor_spec infer_columns describe"
  shows "POST request ''csv_url'' \<in> {None, Some []} \<and>
         POST request ''sd_api_key'' = Some key \<and> key \<noteq> [] \<and>
         py_int env (POST request ''sd_project_id'') = Inr project_id \<and>
         form_id_arg env (POST request ''sd_form_id'') = Inr form_id
         \<longrightarrow> snd (snd (begin_view env request st)) =
               [CallFromScreendoor (POST request ''sd_name'') key project_id form_id]
             \<and> (from_screendoor env (POST request ''sd_name'') key project_id form_id st =
                  (Inr d, st')
                \<longrightarrow> begin_view env request st =
                      (Inr (Redirect ''csv_models:refine-and-import'' [dm_id d]), st',
                       [CallFromScreendoor (POST request ''sd_name'') key project_id form_id])
                    \<and> dynmodels st' = dynmodels st @ [d]
                    \<and> dm_id d \<notin> dm_id ` set (dynmodels st)
                    \<and> sd_api_key d = Some key
                    \<and> sd_project_id d = Some project_id
                    \<and> sd_form_id d = form_id
                    \<and> csv_url d = None)"
    (is "?A \<longrightarrow> ?Q \<and> (?R \<longrightarrow> ?S)")
proof (rule impI)
  assume a: ?A
  obtain r st1 where
    r: "from_screendoor env (POST request ''sd_name'') key project_id form_id st = (r, st1)"
    by (cases "from_screendoor env (POST request ''sd_name'') key project_id form_id st")
  have "begin_try env request st =
          (map_sum (\<lambda>e. e) Some r, st1,
           [CallFromScreendoor (POST request ''sd_name'') key project_id form_id])"
    using begin_try_screendoor [of request key env project_id form_id st r st1] a r by blast
  then have q: ?Q
    using assms(1,2) by (simp add: begin_view_post begin_post_calls)
  have rs: "?R \<longrightarrow> ?S"
  proof
    assume f: ?R
    have cs: "create_schema infer_columns describe
                 ((blank_dynmodel (POST request ''sd_name''))
                    \<lparr>sd_api_key := Some key, sd_project_id := Some project_id,
                     sd_form_id := form_id\<rparr>) st = (Inr d, st')"
      using f assms(3) by (simp add: from_screendoor_spec_def)
    have red: "begin_view env request st =
                 (Inr (Redirect ''csv_models:refine-and-import'' [dm_id d]), st',
                  [CallFromScreendoor (POST request ''sd_name'') key project_id form_id])"
      using begin_post_dispatch [OF assms(1,2), of _ _ env st d st' key project_id form_id] a f
      by blast
    have fresh: "dm_id d \<notin> dm_id ` set (dynmodels st)"
      using create_schema_Inr [OF cs] new_id_fresh [of st] by simp
    have fields: "dynmodels st' = dynmodels st @ [d] \<and> sd_api_key d = Some key
        \<and> sd_project_id d = Some project_id \<and> sd_form_id d = form_id \<and> csv_url d = None"
      using create_schema_Inr [OF cs] by (simp add: blank_dynmodel_def)
    show ?S using red fresh fields by blast
  qed
  show "?Q \<and> (?R \<longrightarrow> ?S)" using q rs by blast
qed

text \<open>
  C6. With the factories modelled from the spec. For a POST to \<^verbatim>\<open>begin\<close> by
  a logged-in user, a field counts as given when it is non-empty (a blank
  input of the form is submitted as the empty string, so "csv_url alone" is
  a non-empty \<^verbatim>\<open>csv_url\<close> with the auth code absent or empty):
  \<^item> \<^verbatim>\<open>csv_url\<close> with auth code: the private-sheet factory, in preference to
    the direct-CSV factory;
  \<^item> \<^verbatim>\<open>csv_url\<close> alone: the direct-CSV factory;
  \<^item> \<^verbatim>\<open>sd_api_key\<close> (no \<^verbatim>\<open>csv_url\<close>) with a project id and an optional form
    id that are integers: the form-service factory.

  In each case the matching factory is called exactly once, with the
  submitted source fields, whatever it then does, and nothing else is called.
  When the factory creates the schema (it does not raise), the store holds
  exactly one descriptor more than before, the one the factory returned; its
  id is new, its source fields are the submitted ones (for the private sheet,
  the URL and the refresh token obtained for the auth code), the other source
  is unset, and the response is the redirect to
  \<^verbatim>\<open>csv_models:refine-and-import\<close> keyed by that id.
\<close>

theorem begin_post_creates_descriptor:
  assumes "user_is_authenticated request" and "http_method request = ''POST''"
    and "from_private_sheet env = from_private_sheet_spec exchange infer_columns describe"
    and "from_csv_url env = from_csv_url_spec infer_columns describe"
    and "from_screendoor env = from_screendoor_spec infer_columns describe"
  shows
    "(POST request ''csv_url'' = Some url \<and> url \<noteq> [] \<and>
      POST request ''csv_google_sheets_auth_code'' = Some code \<and> code \<noteq> []
      \<longrightarrow> snd (snd (begin_view env request st)) =
            [CallFromPrivateSheet (POST request ''csv_name'') url code]
          \<and> (from_private_sheet env (POST request ''csv_name'') url code st = (Inr d, st')
             \<longrightarrow> begin_view env request st =
                   (Inr (Redirect ''csv_models:refine-and-import'' [dm_id d]), st',
                    [CallFromPrivateSheet (POST request ''csv_name'') url code])
                 \<and> dynmodels st' = dynmodels st @ [d]
                 \<and> dm_id d \<notin> dm_id ` set (dynmodels st)
                 \<and> csv_url d = Some url
                 \<and> (\<exists>rt. exchange code = Inr rt \<and> csv_google_refresh_token d = Some rt)
                 \<and> sd_api_key d = None))
     \<and> (POST request ''csv_url'' = Some url \<and> url \<noteq> [] \<and>
      POST request ''csv_google_sheets_auth_code'' \<in> {None, Some []}
      \<longrightarrow> snd (snd (begin_view env request st)) =
            [CallFromCsvUrl (POST request ''csv_name'') url
               (POST request ''csv_google_sheets_auth_code'')]
          \<and> (from_csv_url env (POST request ''csv_name'') url
               (POST request ''csv_google_sheets_auth_code'') st = (Inr d, st')
             \<longrightarrow> begin_view env request st =
                   (Inr (Redirect ''csv_models:refine-and-import'' [dm_id d]), st',
                    [CallFromCsvUrl (POST request ''csv_name'') url
                       (POST request ''csv_google_sheets_auth_code'')])
                 \<and> dynmodels st' = dynmodels st @ [d]
                 \<and> dm_id d \<notin> dm_id ` set (dynmodels st)
                 \<and> csv_url d = Some url
                 \<and> csv_google_refresh_token d = None
                 \<and> sd_api_key d = None))
     \<and> (POST request ''csv_url'' \<in> {None, Some []} \<and>
      POST request ''sd_api_key'' = Some key \<and> key \<noteq> [] \<and>
      py_int env (POST request ''sd_project_id'') = Inr project_id \<and>
      form_id_arg env (POST request ''sd_form_id'') = Inr form_id
      \<longrightarrow> snd (snd (begin_view env request st)) =
            [CallFromScreendoor (POST request ''sd_name'') key project_id form_id]
          \<and> (from_screendoor env (POST request ''sd_name'') key project_id form_id st =
               (Inr d, st')
             \<longrightarrow> begin_view env request st =
                   (Inr (Redirect ''csv_models:refine-and-import'' [dm_id d]), st',
                    [CallFromScreendoor (POST request ''sd_name'') key project_id form_id])
                 \<and> dynmodels st' = dynmodels st @ [d]
                 \<and> dm_id d \<notin> dm_id ` set (dynmodels st)
                 \<and> sd_api_key d = Some key
                 \<and> sd_project_id d = Some project_id
                 \<and> sd_form_id d = form_id
                 \<and> csv_url d = None))"
  by (intro conjI begin_post_private_sheet_case [OF assms(1,2,3)]
      begin_post_csv_url_case [OF assms(1,2,4)] begin_post_screendoor_case [OF assms(1,2,5)])

theorem begin_post_creates_descriptor_witness:
  "begin_view demo_env
     (post_request [(''csv_url'', ''http://x''), (''csv_google_sheets_auth_code'', ''code''),
                    (''csv_name'', ''n'')]) empty_store =
     (Inr (Redirect ''csv_models:refine-and-import'' [1]),
      \<lparr>dynmodels =
         [(blank_dynmodel (Some ''n''))
            \<lparr>dm_id := 1, columns := [(''a'', ''text'')], csv_url := Some ''http://x'',
             csv_google_refresh_token := Some ''rt-code''\<rparr>],
       tables = (\<lambda>i. [])(1 := [])\<rparr>,
      [CallFromPrivateSheet (Some ''n'') ''http://x'' ''code''])
   \<and> begin_view demo_env
     (post_request [(''csv_url'', ''http://x''), (''csv_google_sheets_auth_code'', ''''),
                    (''csv_name'', ''n'')]) empty_store =
     (Inr (Redirect ''csv_models:refine-and-import'' [1]),
      \<lparr>dynmodels =
         [(blank_dynmodel (Some ''n''))
            \<lparr>dm_id := 1, columns := [(''a'', ''text'')], csv_url := Some ''http://x''\<rparr>],
       tables = (\<lambda>i. [])(1 := [])\<rparr>,
      [CallFromCsvUrl (Some ''n'') ''http://x'' (Some [])])
   \<and> begin_view demo_env
     (post_request [(''sd_api_key'', ''k''), (''sd_project_id'', ''7''), (''sd_form_id'', ''3''),
                    (''sd_name'', ''n'')]) empty_store =
     (Inr (Redirect ''csv_models:refine-and-import'' [1]),
      \<lparr>dynmodels =
         [(blank_dynmodel (Some ''n''))
            \<lparr>dm_id := 1, columns := [(''a'', ''text'')], sd_api_key := Some ''k'',
             sd_project_id := Some 7, sd_form_id := Some 3\<rparr>],
       tables = (\<lambda>i. [])(1 := [])\<rparr>,
      [CallFromScreendoor (Some ''n'') ''k'' 7 (Some 3)])"
  using
    begin_post_creates_descriptor [where env = demo_env and st = empty_store
      and exchange = demo_exchange and infer_columns = demo_infer_columns
      and describe = demo_describe
      and request = "post_request [(''csv_url'', ''http://x''),
                       (''csv_google_sheets_auth_code'', ''code''), (''csv_name'', ''n'')]"
      and url = "''http://x''" and code = "''code''"
      and d = "(blank_dynmodel (Some ''n''))
                 \<lparr>dm_id := 1, columns := [(''a'', ''text'')], csv_url := Some ''http://x'',
                  csv_google_refresh_token := Some ''rt-code''\<rparr>"
      and st' = "\<lparr>dynmodels =
         [(blank_dynmodel (Some ''n''))
            \<lparr>dm_id := 1, columns := [(''a'', ''text'')], csv_url := Some ''http://x'',
             csv_google_refresh_token := Some ''rt-code''\<rparr>],
       tables = (\<lambda>i. [])(1 := [])\<rparr>"]
    begin_post_creates_descriptor [where env = demo_env and st = empty_store
      and exchange = demo_exchange and infer_columns = demo_infer_columns
      and describe = demo_describe
      and request = "post_request [(''csv_url'', ''http://x''),
                       (''csv_google_sheets_auth_code'', ''''), (''csv_name'', ''n'')]"
      and url = "''http://x''"
      and d = "(blank_dynmodel (Some ''n''))
                 \<lparr>dm_id := 1, columns := [(''a'', ''text'')], csv_url := Some ''http://x''\<rparr>"
      and st' = "\<lparr>dynmodels =
         [(blank_dynmodel (Some ''n''))
            \<lparr>dm_id := 1, columns := [(''a'', ''text'')], csv_url := Some ''http://x''\<rparr>],
       tables = (\<lambda>i. [])(1 := [])\<rparr>"]
    begin_post_creates_descriptor [where env = demo_env and st = empty_store
      and exchange = demo_exchange and infer_columns = demo_infer_columns
      and describe = demo_describe
      and request = "post_request [(''sd_api_key'', ''k''), (''sd_project_id'', ''7''),
                       (''sd_form_id'', ''3''), (''sd_name'', ''n'')]"
      and key = "''k''" and project_id = 7 and form_id = "Some 3"
      and d = "(blank_dynmodel (Some ''n''))
                 \<lparr>dm_id := 1, columns := [(''a'', ''text'')], sd_api_key := Some ''k'',
                  sd_project_id := Some 7, sd_form_id := Some 3\<rparr>"
      and st' = "\<lparr>dynmodels =
         [(blank_dynmodel (Some ''n''))
            \<lparr>dm_id := 1, columns := [(''a'', ''text'')], sd_api_key := Some ''k'',
             sd_project_id := Some 7, sd_form_id := Some 3\<rparr>],
       tables = (\<lambda>i. [])(1 := [])\<rparr>"]
  by (simp add: demo_env_simps demo_defs py_int_def form_id_arg_def truthy_def str_val_def
      Let_def)




subsection \<open>\<^verbatim>\<open>refine_and_import\<close>, POST\<close>

lemma refine_and_import_post:
  assumes "user_is_authenticated request" and "http_method request = ''POST''"
    and "get_object_or_404 st ident = Inr d"
  shows "refine_and_import env request ident st =
           (if form_errors env (PostData (POST request)) \<noteq> [] then
              (Inr (Render ''refine-and-import.html''
                      [(''form'', CtxForm (PostData (POST request))),
                       (''dynmodel'', CtxDynmodel d)]), st, [])
            else refine_post_valid env (PostData (POST request)) d st)"
  using assms
  by (simp add: refine_and_import_def login_required_def refine_and_import_body_def Let_def)

lemma refine_post_valid_unfold:
  "refine_post_valid env f d st =
     (case fetch_source env (d\<lparr>columns := form_cleaned_columns env f\<rparr>) of
        (Inl e, cs) \<Rightarrow>
          (Inl e, save env (d\<lparr>columns := form_cleaned_columns env f\<rparr>) st,
           CallSave (d\<lparr>columns := form_cleaned_columns env f\<rparr>) # cs)
      | (Inr csv_text, cs) \<Rightarrow>
          (case import_and_respond env f (d\<lparr>columns := form_cleaned_columns env f\<rparr>) csv_text
                  (save env (d\<lparr>columns := form_cleaned_columns env f\<rparr>) st) of
             (out, st2, cs') \<Rightarrow>
               (out, st2, CallSave (d\<lparr>columns := form_cleaned_columns env f\<rparr>) # cs @ cs')))"
  by (simp add: refine_post_valid_def Let_def refresh_after_save)

lemma refine_and_import_valid_post:
  assumes "user_is_authenticated request" and "http_method request = ''POST''"
    and "get_object_or_404 st ident = Inr d"
    and "form_errors env (PostData (POST request)) = []"
    and "d1 = d\<lparr>columns := form_cleaned_columns env (PostData (POST request))\<rparr>"
  shows "refine_and_import env request ident st =
     (case fetch_source env d1 of
        (Inl e, cs) \<Rightarrow> (Inl e, save env d1 st, CallSave d1 # cs)
      | (Inr csv_text, cs) \<Rightarrow>
          (case import_and_respond env (PostData (POST request)) d1 csv_text (save env d1 st) of
             (out, st2, cs') \<Rightarrow> (out, st2, CallSave d1 # cs @ cs')))"
  using assms(1-4) unfolding assms(5)
  by (simp add: refine_and_import_post refine_post_valid_unfold)

text \<open>
  C5. For a POST to \<^verbatim>\<open>refine_and_import\<close> by a logged-in user, with an id
  that resolves to a descriptor, whose submitted column specification fails
  the validation of the refine form: the store is left unchanged, no
  collaborator is called (in particular there is no save), and the response
  is the rendering of \<^verbatim>\<open>refine-and-import.html\<close> with the form bound to the
  submitted data, which carries the field errors, and the descriptor.
\<close>

theorem refine_post_invalid_form:
  assumes "user_is_authenticated request" and "http_method request = ''POST''"
    and "get_object_or_404 st ident = Inr d"
    and "form_errors env (PostData (POST request)) \<noteq> []"
  shows "refine_and_import env request ident st =
           (Inr (Render ''refine-and-import.html''
                   [(''form'', CtxForm (PostData (POST request))),
                    (''dynmodel'', CtxDynmodel d)]), st, [])"
  using assms by (simp add: refine_and_import_post)

theorem refine_post_invalid_form_witness:
  "form_errors demo_env (PostData (POST (post_request []))) = [''This field is required.'']
   \<and> refine_and_import demo_env (post_request []) 1 (store_of demo_dynmodel) =
       (Inr (Render ''refine-and-import.html''
               [(''form'', CtxForm (PostData (POST (post_request [])))),
                (''dynmodel'', CtxDynmodel demo_dynmodel)]), store_of demo_dynmodel, [])"
  using refine_post_invalid_form
    [of "post_request []" "store_of demo_dynmodel" 1 demo_dynmodel demo_env]
  by (simp add: demo_env_simps demo_defs get_object_or_404_def truthy_def)








text \<open>
  C2. For a POST to \<^verbatim>\<open>refine_and_import\<close> by a logged-in user, with an id
  that resolves, a valid column specification and a fetch that succeeds, where
  the importer reports the non-empty list of row errors \<open>errs\<close>: the response
  is the rendering of \<^verbatim>\<open>refine-and-import.html\<close> whose context holds the
  form, the descriptor and exactly the list \<open>errs\<close>; it is not a redirect. The
  descriptor with the cleaned columns, saved before the import, is still the
  one the store holds under that id.
\<close>

theorem refine_post_import_errors:
  assumes "user_is_authenticated request" and "http_method request = ''POST''"
    and "get_object_or_404 st ident = Inr d"
    and "form_errors env (PostData (POST request)) = []"
    and "d1 = d\<lparr>columns := form_cleaned_columns env (PostData (POST request))\<rparr>"
    and "fetch_source env d1 = (Inr csv_text, cs)"
    and "import_records env csv_text d1 (tables (save env d1 st) ident) = (Inr errs, rows)"
    and "errs \<noteq> []"
    and "st2 = (save env d1 st)\<lparr>tables := (tables (save env d1 st))(ident := rows)\<rparr>"
  shows "refine_and_import env request ident st =
           (Inr (Render ''refine-and-import.html''
                   [(''form'', CtxForm (PostData (POST request))),
                    (''dynmodel'', CtxDynmodel d1),
                    (''errors'', CtxErrors errs)]),
            st2, CallSave d1 # cs @ [CallImportRecords csv_text ident, CallLoggerError errs])
         \<and> get_object_or_404 st2 ident = Inr d1
         \<and> columns d1 = form_cleaned_columns env (PostData (POST request))"
proof -
  have id1: "dm_id d1 = ident"
    using assms(3,5) by (simp add: get_object_or_404_id)
  have resp: "import_and_respond env (PostData (POST request)) d1 csv_text (save env d1 st) =
      (Inr (Render ''refine-and-import.html''
                   [(''form'', CtxForm (PostData (POST request))),
                    (''dynmodel'', CtxDynmodel d1),
                    (''errors'', CtxErrors errs)]),
       st2, [CallImportRecords csv_text ident, CallLoggerError errs])"
    using assms(7,8,9) id1 by (simp add: import_and_respond_def Let_def)
  have "refine_and_import env request ident st =
           (Inr (Render ''refine-and-import.html''
                   [(''form'', CtxForm (PostData (POST request))),
                    (''dynmodel'', CtxDynmodel d1),
                    (''errors'', CtxErrors errs)]),
            st2, CallSave d1 # cs @ [CallImportRecords csv_text ident, CallLoggerError errs])"
    using refine_and_import_valid_post [OF assms(1-5)] assms(6) resp by simp
  moreover have "get_object_or_404 st2 ident = Inr d1"
    using get_after_save [of env d1 st] id1 assms(9)
    by (simp add: get_object_or_404_tables_update)
  moreover have "columns d1 = form_cleaned_columns env (PostData (POST request))"
    using assms(5) by simp
  ultimately show ?thesis by simp
qed


theorem refine_post_import_errors_witness:
  "refine_and_import demo_env (post_request [(''columns'', ''c'')]) 1 (store_of demo_bad_dynmodel) =
     (Inr (Render ''refine-and-import.html''
             [(''form'', CtxForm (PostData (POST (post_request [(''columns'', ''c'')])))),
              (''dynmodel'', CtxDynmodel (demo_bad_dynmodel\<lparr>columns := [(''c'', ''text'')]\<rparr>)),
              (''errors'', CtxErrors [''row 1: invalid value''])]),
      \<lparr>dynmodels = [demo_bad_dynmodel\<lparr>columns := [(''c'', ''text'')]\<rparr>],
       tables = (\<lambda>i. [])(1 := [])\<rparr>,
      [CallSave (demo_bad_dynmodel\<lparr>columns := [(''c'', ''text'')]\<rparr>), CallFetchCsv ''http://bad'',
       CallImportRecords ''bad'' 1, CallLoggerError [''row 1: invalid value'']])"
  using
    refine_post_import_errors [where env = demo_env
      and request = "post_request [(''columns'', ''c'')]"
      and ident = 1 and st = "store_of demo_bad_dynmodel" and d = demo_bad_dynmodel
      and ?d1.0 = "demo_bad_dynmodel\<lparr>columns := [(''c'', ''text'')]\<rparr>"
      and csv_text = "''bad''" and cs = "[CallFetchCsv ''http://bad'']"
      and rows = "[]" and errs = "[''row 1: invalid value'']"
      and ?st2.0 = "\<lparr>dynmodels = [demo_bad_dynmodel\<lparr>columns := [(''c'', ''text'')]\<rparr>],
                     tables = (\<lambda>i. [])(1 := [])\<rparr>"]
  by (simp add: demo_env_simps demo_defs get_object_or_404_def
      fetch_source_def save_def truthy_def str_val_def)

lemma fetch_source_oauth:
  assumes "csv_url d = Some url" and "url \<noteq> []"
    and "csv_google_refresh_token d = Some rt" and "rt \<noteq> []"
    and "get_access_data env (get_setting env ''GOOGLE_CLIENT_ID'')
           (get_setting env ''GOOGLE_CLIENT_SECRET'') rt = Inr access_data"
    and "access_data ''access_token'' = Some token"
  shows "fetch_source env d =
           (get_csv_from_url env token url, [CallGetAccessData rt, CallGetCsvFromUrl token url])"
  using assms by (simp add: fetch_source_def truthy_def str_val_def)

lemma fetch_source_direct:
  assumes "csv_url d = Some url" and "url \<noteq> []"
    and "csv_google_refresh_token d \<in> {None, Some []}"
  shows "fetch_source env d = (fetch_csv env url, [CallFetchCsv url])"
  using assms by (auto simp: fetch_source_def truthy_def str_val_def)

lemma fetch_source_form_service:
  assumes "csv_url d \<in> {None, Some []}" and "sd_api_key d = Some key" and "key \<noteq> []"
  shows "fetch_source env d =
           (build_csv env key (sd_project_id d) (sd_form_id d),
            [CallBuildCsv key (sd_project_id d) (sd_form_id d)])"
  using assms by (auto simp: fetch_source_def truthy_def str_val_def)

lemma fetch_source_none:
  assumes "csv_url d \<in> {None, Some []}" and "sd_api_key d \<in> {None, Some []}"
  shows "fetch_source env d =
           (Inl (NotImplementedError (''Invalid data source for '' @ dynmodel_str env d)), [])"
  using assms by (auto simp: fetch_source_def truthy_def)

lemma import_and_respond_first_call:
  "\<exists>rest. snd (snd (import_and_respond env f d csv_text st)) =
            CallImportRecords csv_text (dm_id d) # rest"
  by (simp add: import_and_respond_def Let_def split: prod.splits sum.splits)

lemma refine_valid_post_calls:
  assumes "user_is_authenticated request" and "http_method request = ''POST''"
    and "get_object_or_404 st ident = Inr d"
    and "form_errors env (PostData (POST request)) = []"
    and "d1 = d\<lparr>columns := form_cleaned_columns env (PostData (POST request))\<rparr>"
    and "fetch_source env d1 = (Inr csv_text, cs)"
  shows "\<exists>rest. snd (snd (refine_and_import env request ident st)) =
                  CallSave d1 # cs @ CallImportRecords csv_text ident # rest"
proof -
  have id1: "dm_id d1 = ident"
    using assms(3,5) by (simp add: get_object_or_404_id)
  obtain rest where
    "snd (snd (import_and_respond env (PostData (POST request)) d1 csv_text (save env d1 st))) =
       CallImportRecords csv_text ident # rest"
    using import_and_respond_first_call [of env "PostData (POST request)" d1 csv_text] id1
    by auto
  then have "snd (snd (refine_and_import env request ident st)) =
               CallSave d1 # cs @ CallImportRecords csv_text ident # rest"
    using refine_and_import_valid_post [OF assms(1-5)] assms(6)
    by (simp split: prod.splits)
  then show ?thesis by blast
qed

text \<open>
  C3. For a POST to \<^verbatim>\<open>refine_and_import\<close> by a logged-in user, with an id
  that resolves and a valid column specification, the handler first saves
  the descriptor \<open>d1\<close> (the persisted descriptor with the cleaned columns) and
  then fetches by the source fields of that descriptor, in this order:
  \<^item> \<^verbatim>\<open>csv_url\<close> and \<^verbatim>\<open>csv_google_refresh_token\<close> both populated: the OAuth
    client is asked for access data for the refresh token, and the sheet is
    fetched from the URL with the \<^verbatim>\<open>access_token\<close> of the answer;
  \<^item> otherwise \<^verbatim>\<open>csv_url\<close> populated: the CSV is fetched directly;
  \<^item> otherwise \<^verbatim>\<open>sd_api_key\<close> populated: the form service builds the CSV
    from the stored project and form ids;
  \<^item> none populated: the handler raises \<^verbatim>\<open>NotImplementedError\<close> and returns
    no response; the save has already happened.

  In the first three cases the text the fetch returns is the text handed to
  the importer, which is the next call.
\<close>

theorem refine_post_fetch_dispatch:
  assumes "user_is_authenticated request" and "http_method request = ''POST''"
    and "get_object_or_404 st ident = Inr d"
    and "form_errors env (PostData (POST request)) = []"
    and "d1 = d\<lparr>columns := form_cleaned_columns env (PostData (POST request))\<rparr>"
  shows
    "(csv_url d = Some url \<and> url \<noteq> [] \<and> csv_google_refresh_token d = Some rt \<and> rt \<noteq> [] \<and>
      get_access_data env (get_setting env ''GOOGLE_CLIENT_ID'')
        (get_setting env ''GOOGLE_CLIENT_SECRET'') rt = Inr access_data \<and>
      access_data ''access_token'' = Some token \<and>
      get_csv_from_url env token url = Inr csv_text
      \<longrightarrow> take 4 (snd (snd (refine_and_import env request ident st))) =
            [CallSave d1, CallGetAccessData rt, CallGetCsvFromUrl token url,
             CallImportRecords csv_text ident])
     \<and> (csv_url d = Some url \<and> url \<noteq> [] \<and> csv_google_refresh_token d \<in> {None, Some []} \<and>
      fetch_csv env url = Inr csv_text
      \<longrightarrow> take 3 (snd (snd (refine_and_import env request ident st))) =
            [CallSave d1, CallFetchCsv url, CallImportRecords csv_text ident])
     \<and> (csv_url d \<in> {None, Some []} \<and> sd_api_key d = Some key \<and> key \<noteq> [] \<and>
      build_csv env key (sd_project_id d) (sd_form_id d) = Inr csv_text
      \<longrightarrow> take 3 (snd (snd (refine_and_import env request ident st))) =
            [CallSave d1, CallBuildCsv key (sd_project_id d) (sd_form_id d),
             CallImportRecords csv_text ident])
     \<and> (csv_url d \<in> {None, Some []} \<and> sd_api_key d \<in> {None, Some []}
      \<longrightarrow> refine_and_import env request ident st =
            (Inl (NotImplementedError (''Invalid data source for '' @ dynmodel_str env d1)),
             save env d1 st, [CallSave d1]))"
proof (intro conjI impI)
  assume h: "csv_url d = Some url \<and> url \<noteq> [] \<and> csv_google_refresh_token d = Some rt \<and> rt \<noteq> [] \<and>
      get_access_data env (get_setting env ''GOOGLE_CLIENT_ID'')
        (get_setting env ''GOOGLE_CLIENT_SECRET'') rt = Inr access_data \<and>
      access_data ''access_token'' = Some token \<and>
      get_csv_from_url env token url = Inr csv_text"
  then have "fetch_source env d1 =
      (Inr csv_text, [CallGetAccessData rt, CallGetCsvFromUrl token url])"
    using fetch_source_oauth [of d1 url rt env access_data token] assms(5) by simp
  from refine_valid_post_calls [OF assms this]
  show "take 4 (snd (snd (refine_and_import env request ident st))) =
            [CallSave d1, CallGetAccessData rt, CallGetCsvFromUrl token url,
             CallImportRecords csv_text ident]"
    by auto
next
  assume h: "csv_url d = Some url \<and> url \<noteq> [] \<and> csv_google_refresh_token d \<in> {None, Some []} \<and>
      fetch_csv env url = Inr csv_text"
  then have "fetch_source env d1 = (Inr csv_text, [CallFetchCsv url])"
    using fetch_source_direct [of d1 url env] assms(5) by simp
  from refine_valid_post_calls [OF assms this]
  show "take 3 (snd (snd (refine_and_import env request ident st))) =
            [CallSave d1, CallFetchCsv url, CallImportRecords csv_text ident]"
    by auto
next
  assume h: "csv_url d \<in> {None, Some []} \<and> sd_api_key d = Some key \<and> key \<noteq> [] \<and>
      build_csv env key (sd_project_id d) (sd_form_id d) = Inr csv_text"
  then have "fetch_source env d1 =
      (Inr csv_text, [CallBuildCsv key (sd_project_id d) (sd_form_id d)])"
    using fetch_source_form_service [of d1 key env] assms(5) by simp
  from refine_valid_post_calls [OF assms this]
  show "take 3 (snd (snd (refine_and_import env request ident st))) =
            [CallSave d1, CallBuildCsv key (sd_project_id d) (sd_form_id d),
             CallImportRecords csv_text ident]"
    by auto
next
  assume h: "csv_url d \<in> {None, Some []} \<and> sd_api_key d \<in> {None, Some []}"
  then have "fetch_source env d1 =
      (Inl (NotImplementedError (''Invalid data source for '' @ dynmodel_str env d1)), [])"
    using fetch_source_none [of d1 env] assms(5) by simp
  then show "refine_and_import env request ident st =
            (Inl (NotImplementedError (''Invalid data source for '' @ dynmodel_str env d1)),
             save env d1 st, [CallSave d1])"
    using refine_and_import_valid_post [OF assms] by simp
qed

theorem refine_post_fetch_dispatch_witness:
  "snd (snd (refine_and_import demo_env (post_request [(''columns'', ''c'')]) 1
       (store_of demo_sheet_dynmodel))) =
     [CallSave (demo_sheet_dynmodel\<lparr>columns := [(''c'', ''text'')]\<rparr>), CallGetAccessData ''rt'',
      CallGetCsvFromUrl ''at-rt'' ''http://x'', CallImportRecords ''sheet'' 1, CallLoggerError []]
   \<and> snd (snd (refine_and_import demo_env (post_request [(''columns'', ''c'')]) 1
       (store_of demo_csv_dynmodel))) =
     [CallSave (demo_csv_dynmodel\<lparr>columns := [(''c'', ''text'')]\<rparr>), CallFetchCsv ''http://x'',
      CallImportRecords ''direct'' 1, CallLoggerError []]
   \<and> snd (snd (refine_and_import demo_env (post_request [(''columns'', ''c'')]) 1
       (store_of demo_form_dynmodel))) =
     [CallSave (demo_form_dynmodel\<lparr>columns := [(''c'', ''text'')]\<rparr>),
      CallBuildCsv ''k'' (Some 7) None, CallImportRecords ''form'' 1, CallLoggerError []]
   \<and> refine_and_import demo_env (post_request [(''columns'', ''c'')]) 1 (store_of demo_dynmodel) =
     (Inl (NotImplementedError ''Invalid data source for survey''),
      \<lparr>dynmodels = [demo_dynmodel\<lparr>columns := [(''c'', ''text'')]\<rparr>], tables = (\<lambda>i. [])(1 := [])\<rparr>,
      [CallSave (demo_dynmodel\<lparr>columns := [(''c'', ''text'')]\<rparr>)])"
proof -
  have a: "take 4 (snd (snd (refine_and_import demo_env (post_request [(''columns'', ''c'')]) 1
       (store_of demo_sheet_dynmodel)))) =
     [CallSave (demo_sheet_dynmodel\<lparr>columns := [(''c'', ''text'')]\<rparr>), CallGetAccessData ''rt'',
      CallGetCsvFromUrl ''at-rt'' ''http://x'', CallImportRecords ''sheet'' 1]"
    using refine_post_fetch_dispatch [where env = demo_env
      and request = "post_request [(''columns'', ''c'')]" and ident = 1
      and st = "store_of demo_sheet_dynmodel" and d = demo_sheet_dynmodel
      and ?d1.0 = "demo_sheet_dynmodel\<lparr>columns := [(''c'', ''text'')]\<rparr>"
      and url = "''http://x''" and rt = "''rt''"
      and access_data = "[''access_token'' \<mapsto> ''at-rt'']" and token = "''at-rt''"
      and csv_text = "''sheet''"]
    by (simp add: demo_env_simps demo_defs get_object_or_404_def truthy_def str_val_def)
  have b: "take 3 (snd (snd (refine_and_import demo_env (post_request [(''columns'', ''c'')]) 1
       (store_of demo_csv_dynmodel)))) =
     [CallSave (demo_csv_dynmodel\<lparr>columns := [(''c'', ''text'')]\<rparr>), CallFetchCsv ''http://x'',
      CallImportRecords ''direct'' 1]"
    using refine_post_fetch_dispatch [where env = demo_env
      and request = "post_request [(''columns'', ''c'')]" and ident = 1
      and st = "store_of demo_csv_dynmodel" and d = demo_csv_dynmodel
      and ?d1.0 = "demo_csv_dynmodel\<lparr>columns := [(''c'', ''text'')]\<rparr>"
      and url = "''http://x''" and csv_text = "''direct''"]
    by (simp add: demo_env_simps demo_defs get_object_or_404_def truthy_def str_val_def)
  have c: "take 3 (snd (snd (refine_and_import demo_env (post_request [(''columns'', ''c'')]) 1
       (store_of demo_form_dynmodel)))) =
     [CallSave (demo_form_dynmodel\<lparr>columns := [(''c'', ''text'')]\<rparr>),
      CallBuildCsv ''k'' (Some 7) None, CallImportRecords ''form'' 1]"
    using refine_post_fetch_dispatch [where env = demo_env
      and request = "post_request [(''columns'', ''c'')]" and ident = 1
      and st = "store_of demo_form_dynmodel" and d = demo_form_dynmodel
      and ?d1.0 = "demo_form_dynmodel\<lparr>columns := [(''c'', ''text'')]\<rparr>"
      and key = "''k''" and csv_text = "''form''"]
    by (simp add: demo_env_simps demo_defs get_object_or_404_def truthy_def str_val_def)
  have d: "refine_and_import demo_env (post_request [(''columns'', ''c'')]) 1
       (store_of demo_dynmodel) =
     (Inl (NotImplementedError ''Invalid data source for survey''),
      \<lparr>dynmodels = [demo_dynmodel\<lparr>columns := [(''c'', ''text'')]\<rparr>], tables = (\<lambda>i. [])(1 := [])\<rparr>,
      [CallSave (demo_dynmodel\<lparr>columns := [(''c'', ''text'')]\<rparr>)])"
    using refine_post_fetch_dispatch [where env = demo_env
      and request = "post_request [(''columns'', ''c'')]" and ident = 1
      and st = "store_of demo_dynmodel" and d = demo_dynmodel
      and ?d1.0 = "demo_dynmodel\<lparr>columns := [(''c'', ''text'')]\<rparr>"]
    by (simp add: demo_env_simps demo_defs get_object_or_404_def truthy_def str_val_def save_def)
  show ?thesis
    using a b c d
    by (simp add: refine_and_import_def login_required_def refine_and_import_body_def
        refine_post_valid_def import_and_respond_def fetch_source_def refresh_from_db_def
        get_object_or_404_def save_def Let_def truthy_def str_val_def
        demo_env_simps demo_defs)
qed

subsection \<open>\<^verbatim>\<open>refine_and_import_by_name\<close> and \<^verbatim>\<open>import_data\<close>\<close>

lemma get_object_or_404_none:
  "(\<forall>d\<in>set (dynmodels st). dm_id d \<noteq> ident) \<Longrightarrow> get_object_or_404 st ident = Inl Http404"
  by (simp add: get_object_or_404_def find_None_iff split: option.splits)

lemma find_unique:
  "d \<in> set xs \<Longrightarrow> P d \<Longrightarrow> (\<forall>x\<in>set xs. P x \<longrightarrow> x = d) \<Longrightarrow> find P xs = Some d"
proof (induction xs)
  case Nil
  then show ?case by simp
next
  case (Cons a xs)
  show ?case
  proof (cases "P a")
    case True
    then have "a = d" using Cons.prems(3) by simp
    then show ?thesis using True by simp
  next
    case False
    then have "d \<in> set xs" using Cons.prems(1,2) by auto
    moreover have "\<forall>x\<in>set xs. P x \<longrightarrow> x = d" using Cons.prems(3) by simp
    ultimately have "find P xs = Some d" using Cons.IH Cons.prems(2) by blast
    then show ?thesis using False by simp
  qed
qed

lemma get_or_404_unique:
  assumes "d \<in> set (dynmodels st)" and "dm_name d = nm"
    and "\<forall>x\<in>set (dynmodels st). dm_name x = nm \<longrightarrow> x = d"
  shows "get_or_404 st nm = Inr (dm_id d)"
proof -
  have "find (\<lambda>x. dm_name x = nm) (dynmodels st) = Some d"
    using find_unique [of d "dynmodels st" "\<lambda>x. dm_name x = nm"] assms by blast
  then show ?thesis
    by (simp add: get_or_404_def)
qed

lemma get_or_404_none:
  "(\<forall>d\<in>set (dynmodels st). dm_name d \<noteq> nm) \<Longrightarrow> get_or_404 st nm = Inl Http404"
  by (simp add: get_or_404_def find_None_iff split: option.splits)

lemma refine_and_import_by_name_resolved:
  "get_or_404 st nm = Inr ident \<Longrightarrow>
   refine_and_import_by_name env request nm st = refine_and_import env request ident st"
  by (simp add: refine_and_import_by_name_def refine_and_import_by_name_body_def
      refine_and_import_def login_required_def)

text \<open>
  C7. With the name lookup modelled from the spec: when exactly one
  descriptor \<open>d\<close> of the store has the name \<open>nm\<close>,
  \<^verbatim>\<open>refine_and_import_by_name\<close> gives, for every request (whatever its
  method, parameters or user), the outcome, store and calls that
  \<^verbatim>\<open>refine_and_import\<close> gives for the id of \<open>d\<close>; when no descriptor has
  that name, a logged-in user gets \<^verbatim>\<open>Http404\<close>, the "not found" response,
  and nothing is changed or called.
\<close>

theorem refine_and_import_by_name_delegates:
  "(d \<in> set (dynmodels st) \<and> dm_name d = nm \<and>
    (\<forall>x\<in>set (dynmodels st). dm_name x = nm \<longrightarrow> x = d)
    \<longrightarrow> refine_and_import_by_name env request nm st =
          refine_and_import env request (dm_id d) st)
   \<and> (user_is_authenticated request \<and> (\<forall>x\<in>set (dynmodels st). dm_name x \<noteq> nm)
    \<longrightarrow> refine_and_import_by_name env request nm st = (Inl Http404, st, []))"
proof (intro conjI impI)
  assume "d \<in> set (dynmodels st) \<and> dm_name d = nm \<and>
    (\<forall>x\<in>set (dynmodels st). dm_name x = nm \<longrightarrow> x = d)"
  then have "get_or_404 st nm = Inr (dm_id d)"
    using get_or_404_unique [of d st nm] by blast
  then show "refine_and_import_by_name env request nm st =
          refine_and_import env request (dm_id d) st"
    by (rule refine_and_import_by_name_resolved)
next
  assume h: "user_is_authenticated request \<and> (\<forall>x\<in>set (dynmodels st). dm_name x \<noteq> nm)"
  then have auth: "user_is_authenticated request"
    by blast
  have "get_or_404 st nm = Inl Http404"
    using h get_or_404_none [of st nm] by blast
  then show "refine_and_import_by_name env request nm st = (Inl Http404, st, [])"
    using auth by (simp add: refine_and_import_by_name_def refine_and_import_by_name_body_def
        login_required_def)
qed

theorem refine_and_import_by_name_delegates_witness:
  "refine_and_import_by_name demo_env (get_request []) ''survey'' (store_of demo_dynmodel) =
     refine_and_import demo_env (get_request []) 1 (store_of demo_dynmodel)
   \<and> refine_and_import_by_name demo_env (post_request [(''columns'', ''c'')]) ''survey''
       (store_of demo_csv_dynmodel) =
     refine_and_import demo_env (post_request [(''columns'', ''c'')]) 1 (store_of demo_csv_dynmodel)
   \<and> refine_and_import demo_env (get_request []) 1 (store_of demo_dynmodel) =
     (Inr (Render ''refine-and-import.html''
             [(''form'', CtxForm (ColumnsData [(''a'', ''text'')])),
              (''dynmodel'', CtxDynmodel demo_dynmodel)]), store_of demo_dynmodel, [])
   \<and> refine_and_import_by_name demo_env (get_request []) ''nope'' (store_of demo_dynmodel) =
     (Inl Http404, store_of demo_dynmodel, [])"
  using
    refine_and_import_by_name_delegates [where env = demo_env and request = "get_request []"
      and nm = "''survey''" and st = "store_of demo_dynmodel" and d = demo_dynmodel]
    refine_and_import_by_name_delegates [where env = demo_env
      and request = "post_request [(''columns'', ''c'')]"
      and nm = "''survey''" and st = "store_of demo_csv_dynmodel" and d = demo_csv_dynmodel]
    refine_and_import_by_name_delegates [where env = demo_env and request = "get_request []"
      and nm = "''nope''" and st = "store_of demo_dynmodel"]
  by (simp add: demo_defs refine_and_import_def login_required_def refine_and_import_body_def
      get_object_or_404_def)

text \<open>
  C9. For a request to \<^verbatim>\<open>import_data\<close> by a logged-in user:
  \<^item> a GET with an id that resolves to \<open>d\<close> is answered by the rendering of
    \<^verbatim>\<open>import-data.html\<close> with \<open>d\<close>; the store is unchanged and no
    collaborator is called (no fetch, no import, no save);
  \<^item> whatever the id, a request whose method is not POST leaves the store
    unchanged and calls nothing: state changes happen only on POST;
  \<^item> an id that no descriptor has is answered by \<^verbatim>\<open>Http404\<close>, the "not found"
    response, for every method.
\<close>

theorem import_data_get_only_renders:
  assumes "user_is_authenticated request"
  shows "(http_method request = ''GET'' \<and> get_object_or_404 st ident = Inr d
          \<longrightarrow> import_data env request ident st =
                (Inr (Render ''import-data.html'' [(''dynmodel'', CtxDynmodel d)]), st, []))
         \<and> (http_method request \<noteq> ''POST''
          \<longrightarrow> snd (import_data env request ident st) = (st, []))
         \<and> ((\<forall>x\<in>set (dynmodels st). dm_id x \<noteq> ident)
          \<longrightarrow> import_data env request ident st = (Inl Http404, st, []))"
proof (intro conjI impI)
  assume "http_method request = ''GET'' \<and> get_object_or_404 st ident = Inr d"
  then show "import_data env request ident st =
                (Inr (Render ''import-data.html'' [(''dynmodel'', CtxDynmodel d)]), st, [])"
    using assms by (simp add: import_data_def login_required_def import_data_body_def)
next
  assume "http_method request \<noteq> ''POST''"
  then show "snd (import_data env request ident st) = (st, [])"
    using assms
    by (simp add: import_data_def login_required_def import_data_body_def split: sum.splits)
next
  assume "\<forall>x\<in>set (dynmodels st). dm_id x \<noteq> ident"
  then have "get_object_or_404 st ident = Inl Http404"
    by (rule get_object_or_404_none)
  then show "import_data env request ident st = (Inl Http404, st, [])"
    using assms by (simp add: import_data_def login_required_def import_data_body_def)
qed

theorem import_data_get_only_renders_witness:
  "import_data demo_env (get_request []) 1 (store_of demo_csv_dynmodel) =
     (Inr (Render ''import-data.html'' [(''dynmodel'', CtxDynmodel demo_csv_dynmodel)]),
      store_of demo_csv_dynmodel, [])
   \<and> import_data demo_env (get_request []) 2 (store_of demo_csv_dynmodel) =
     (Inl Http404, store_of demo_csv_dynmodel, [])
   \<and> import_data demo_env (post_request []) 2 (store_of demo_csv_dynmodel) =
     (Inl Http404, store_of demo_csv_dynmodel, [])"
  using
    import_data_get_only_renders [where env = demo_env and request = "get_request []"
      and ident = 1 and st = "store_of demo_csv_dynmodel" and d = demo_csv_dynmodel]
    import_data_get_only_renders [where env = demo_env and request = "get_request []"
      and ident = 2 and st = "store_of demo_csv_dynmodel"]
    import_data_get_only_renders [where env = demo_env and request = "post_request []"
      and ident = 2 and st = "store_of demo_csv_dynmodel"]
  by (simp add: demo_defs get_object_or_404_def)

end
